theory Spec2Isabelle
  imports Main "HOL-Library.AList" "HOL-Library.Char_ord" "HOL-Library.List_Lexorder"
    "HOL-Library.Multiset"
begin

section \<open>Python string primitives used by the analyzer\<close>

text \<open>
  Paths and configuration values are Python strings, modelled as \<open>string\<close>.
  The slice \<open>s[n:]\<close> is \<open>drop n s\<close>: both give the empty string when \<open>n\<close> is past
  the end. \<open>s.startswith(p)\<close> compares the first \<open>len(p)\<close> characters of \<open>s\<close> with \<open>p\<close>.
\<close>

definition startswith :: "string \<Rightarrow> string \<Rightarrow> bool" where
  "startswith s p = (take (length p) s = p)"

text \<open>
  \<open>s.replace(old, new)\<close> scans \<open>s\<close> from the left and replaces every occurrence
  of \<open>old\<close> it meets, resuming after the replaced occurrence (occurrences do not
  overlap). With an empty \<open>old\<close>, Python puts \<open>new\<close> before every character and at the end.
\<close>

function replace_scan :: "string \<Rightarrow> string \<Rightarrow> string \<Rightarrow> string" where
  "replace_scan old new [] = []"
| "replace_scan old new (c # cs) =
     (if old \<noteq> [] \<and> startswith (c # cs) old
      then new @ replace_scan old new (drop (length old) (c # cs))
      else c # replace_scan old new cs)"
  by pat_completeness auto
termination
  by (relation "measure (\<lambda>(old, new, s). length s)") auto

definition str_replace :: "string \<Rightarrow> string \<Rightarrow> string \<Rightarrow> string" where
  "str_replace old new s =
     (if old = [] then new @ concat (map (\<lambda>c. c # new) s) else replace_scan old new s)"

text \<open>\<open>old in s\<close>: some suffix of \<open>s\<close> starts with \<open>old\<close>.\<close>

fun contains :: "string \<Rightarrow> string \<Rightarrow> bool" where
  "contains [] old = (old = [])"
| "contains (c # cs) old = (startswith (c # cs) old \<or> contains cs old)"

section \<open>Constants of the configuration vocabulary\<close>

text \<open>
  The module \<open>aeneas.globalconstants\<close> (\<open>gc\<close> in the source) is not among the
  sources, so the constants the analyzer reads from it are taken as a parameter:
  a record with one field for each constant.
\<close>

record globalconstants =
  PPV_OS_TASK_PREFIX :: string
  PPN_TASK_LANGUAGE :: string
  PPN_JOB_LANGUAGE :: string
  PPN_TASK_CUSTOM_ID :: string
  PPN_TASK_IS_TEXT_FILE_XML :: string
  PPN_TASK_IS_AUDIO_FILE_XML :: string
  PPN_JOB_IS_HIERARCHY_TYPE :: string
  PPN_JOB_IS_HIERARCHY_PREFIX :: string
  PPN_JOB_IS_TEXT_FILE_RELATIVE_PATH :: string
  PPN_JOB_IS_TEXT_FILE_NAME_REGEX :: string
  PPN_JOB_IS_AUDIO_FILE_RELATIVE_PATH :: string
  PPN_JOB_IS_AUDIO_FILE_NAME_REGEX :: string
  PPN_JOB_IS_TASK_DIRECTORY_NAME_REGEX :: string
  PPN_JOB_OS_HIERARCHY_TYPE :: string
  PPN_JOB_OS_HIERARCHY_PREFIX :: string

section \<open>Placeholder substitution\<close>

text \<open>
  \<open>_replace_placeholder(string, custom_id)\<close>: \<open>None\<close> passes through, any other
  string has the prefix placeholder replaced by \<open>custom_id\<close>.
\<close>

definition replace_placeholder :: "globalconstants \<Rightarrow> string option \<Rightarrow> string \<Rightarrow> string option" where
  "replace_placeholder gc string custom_id =
     (case string of
        None \<Rightarrow> None
      | Some s \<Rightarrow> Some (str_replace (PPV_OS_TASK_PREFIX gc) custom_id s))"

section \<open>Errors and dictionaries\<close>

text \<open>
  The analyzer catches one exception only (the \<open>KeyError\<close> of the task language
  lookup); every other failed dictionary lookup and every failed \<open>re.compile\<close>
  leaves the call as an exception. Both are values here: a result is \<open>error + 'a\<close>,
  \<open>Inl\<close> carrying the exception.
\<close>

datatype error = KeyError string | ReError string

definition bind_e :: "error + 'a \<Rightarrow> ('a \<Rightarrow> error + 'b) \<Rightarrow> error + 'b" where
  "bind_e x f = (case x of Inl e \<Rightarrow> Inl e | Inr v \<Rightarrow> f v)"

text \<open>\<open>d[key]\<close> on a Python dictionary: the value, or \<open>KeyError\<close> for a missing key.\<close>

definition getitem :: "(string \<rightharpoonup> string) \<Rightarrow> string \<Rightarrow> error + string" where
  "getitem d key = (case d key of None \<Rightarrow> Inl (KeyError key) | Some v \<Rightarrow> Inr v)"

section \<open>Regular expressions\<close>

text \<open>
  A compiled pattern object of Python's \<open>re\<close> module, for the fragment without
  anchors, groups and back-references: the empty pattern, a character class
  (\<open>Sym\<close>), a negated class (\<open>NSym\<close>; \<open>NSym []\<close> is any character),
  alternation, concatenation and repetition. Whether a match exists is decided with
  derivatives. \<open>re_match r s\<close> is \<open>re.match(r, s) != None\<close> (a match starting at
  the beginning of \<open>s\<close>, of any length), \<open>re_search r s\<close> is
  \<open>re.search(r, s) != None\<close> (a match starting anywhere in \<open>s\<close>).
\<close>

datatype regex =
    Nothing
  | Eps
  | Sym "char list"
  | NSym "char list"
  | Alt regex regex
  | Seq regex regex
  | Star regex

fun nullable :: "regex \<Rightarrow> bool" where
  "nullable Nothing = False"
| "nullable Eps = True"
| "nullable (Sym cs) = False"
| "nullable (NSym cs) = False"
| "nullable (Alt r s) = (nullable r \<or> nullable s)"
| "nullable (Seq r s) = (nullable r \<and> nullable s)"
| "nullable (Star r) = True"

fun deriv :: "char \<Rightarrow> regex \<Rightarrow> regex" where
  "deriv c Nothing = Nothing"
| "deriv c Eps = Nothing"
| "deriv c (Sym cs) = (if c \<in> set cs then Eps else Nothing)"
| "deriv c (NSym cs) = (if c \<in> set cs then Nothing else Eps)"
| "deriv c (Alt r s) = Alt (deriv c r) (deriv c s)"
| "deriv c (Seq r s) =
     (if nullable r then Alt (Seq (deriv c r) s) (deriv c s) else Seq (deriv c r) s)"
| "deriv c (Star r) = Seq (deriv c r) (Star r)"

fun re_match :: "regex \<Rightarrow> string \<Rightarrow> bool" where
  "re_match r [] = nullable r"
| "re_match r (c # cs) = (nullable r \<or> re_match (deriv c r) cs)"

fun re_search :: "regex \<Rightarrow> string \<Rightarrow> bool" where
  "re_search r [] = nullable r"
| "re_search r (c # cs) = (re_match r (c # cs) \<or> re_search r cs)"

text \<open>The words a pattern matches in full, as the reference for the two searches.\<close>

inductive matches :: "regex \<Rightarrow> string \<Rightarrow> bool" where
  m_eps: "matches Eps []"
| m_sym: "c \<in> set cs \<Longrightarrow> matches (Sym cs) [c]"
| m_nsym: "c \<notin> set cs \<Longrightarrow> matches (NSym cs) [c]"
| m_altl: "matches r w \<Longrightarrow> matches (Alt r s) w"
| m_altr: "matches s w \<Longrightarrow> matches (Alt r s) w"
| m_seq: "matches r u \<Longrightarrow> matches s v \<Longrightarrow> matches (Seq r s) (u @ v)"
| m_star_nil: "matches (Star r) []"
| m_star_step: "matches r u \<Longrightarrow> matches (Star r) v \<Longrightarrow> matches (Star r) (u @ v)"

section \<open>Paths\<close>

text \<open>
  The path separator \<open>os.sep\<close> on a POSIX system. \<open>s.split(sep)\<close> cuts at every
  separator and always returns at least one component (the empty string for the
  empty string).
\<close>

definition os_sep :: char where
  "os_sep = CHR ''/''"

fun split_sep :: "char \<Rightarrow> string \<Rightarrow> string list" where
  "split_sep sep [] = [[]]"
| "split_sep sep (c # cs) =
     (if c = sep then [] # split_sep sep cs
      else (case split_sep sep cs of
              [] \<Rightarrow> [[c]]
            | w # ws \<Rightarrow> (c # w) # ws))"

text \<open>
  \<open>os.path.dirname(p)\<close>: everything up to the last separator, without trailing
  separators unless it consists of separators only.
\<close>

definition dirname :: "string \<Rightarrow> string" where
  "dirname p =
     (let head = rev (dropWhile (\<lambda>c. c \<noteq> os_sep) (rev p))
      in if head \<noteq> [] \<and> filter (\<lambda>c. c \<noteq> os_sep) head \<noteq> []
         then rev (dropWhile (\<lambda>c. c = os_sep) (rev head))
         else head)"

section \<open>Data model\<close>

text \<open>
  Modelled from the spec: the hierarchy kind is one of two variants, Flat and Paged
  (class \<open>HierarchyType\<close> of \<open>aeneas.hierarchytype\<close> is not among the sources).
  The analyzer compares configuration values, which are strings, with the two
  variants, so they are two string constants.
\<close>

definition HierarchyType_FLAT :: string where
  "HierarchyType_FLAT = ''flat''"

definition HierarchyType_PAGED :: string where
  "HierarchyType_PAGED = ''paged''"

text \<open>
  Modelled from the spec: a Task has an identifier, a language, a text path, an audio
  path, an output (sync-map) path, two output reference templates, and its
  configuration string; the templates may be absent (classes \<open>Task\<close> and
  \<open>TaskConfiguration\<close> of \<open>aeneas.task\<close> are not among the sources). The fields
  are the attributes \<open>_create_task\<close> reads and writes.
\<close>

record TaskConfiguration =
  description :: string
  language :: string
  task_custom_id :: string
  os_file_name :: string
  os_file_smil_audio_ref :: "string option"
  os_file_smil_page_ref :: "string option"

record Task =
  task_config_string :: string
  configuration :: TaskConfiguration
  text_file_path :: string
  audio_file_path :: string
  sync_map_file_path :: "string option"

text \<open>
  Modelled from the spec: a Job owns its configuration string and an ordered
  sequence of Tasks, appended in the order of discovery (class \<open>Job\<close> of
  \<open>aeneas.job\<close> is not among the sources).
\<close>

record Job =
  job_config_string :: string
  tasks :: "Task list"

definition new_Job :: "string \<Rightarrow> Job" where
  "new_Job config_string = \<lparr>job_config_string = config_string, tasks = []\<rparr>"

definition add_task :: "Job \<Rightarrow> Task \<Rightarrow> Job" where
  "add_task job task = job\<lparr>tasks := tasks job @ [task]\<rparr>"

text \<open>
  Modelled from the spec: the container boundary gives the presence of either
  configuration form, the path of each configuration entry, the list of entries and
  the contents of an entry (class \<open>Container\<close> of \<open>aeneas.container\<close> is not
  among the sources).
\<close>

record Container =
  has_config_xml :: bool
  has_config_txt :: bool
  entry_config_xml :: string
  entry_config_txt :: string
  container_entries :: "string list"
  read_entry :: "string \<Rightarrow> string"

section \<open>Collaborators taken as parameters\<close>

text \<open>
  The functions of \<open>aeneas.globalfunctions\<close> (\<open>gf\<close> in the source) that the analyzer
  calls are not among the sources; they are the fields of a record that every
  function below receives. \<open>config_xml_to_dict\<close> is called with \<open>parse_job=True\<close>
  (one dictionary) and with \<open>parse_job=False\<close> (a list of dictionaries): two fields.
\<close>

record globalfunctions =
  norm_join :: "string \<Rightarrow> string \<Rightarrow> string"
  file_name_without_extension :: "string \<Rightarrow> string"
  config_txt_to_string :: "string \<Rightarrow> string"
  config_string_to_dict :: "string \<Rightarrow> (string \<rightharpoonup> string)"
  config_dict_to_string :: "(string \<rightharpoonup> string) \<Rightarrow> string"
  config_xml_to_dict_job :: "string \<Rightarrow> (string \<rightharpoonup> string)"
  config_xml_to_dict_tasks :: "string \<Rightarrow> (string \<rightharpoonup> string) list"

text \<open>
  The constructor \<open>Task(config_string)\<close> and \<open>re.compile\<close>, which turns the text
  of a pattern into a pattern object or raises.
\<close>

record library =
  new_Task :: "string \<Rightarrow> Task"
  re_compile :: "string \<Rightarrow> error + regex"

section \<open>Output path\<close>

text \<open>\<open>_compute_sync_map_file_path(root, hierarchy_type, custom_id, file_name)\<close>.\<close>

definition compute_sync_map_file_path ::
  "globalfunctions \<Rightarrow> globalconstants \<Rightarrow> string \<Rightarrow> string \<Rightarrow> string \<Rightarrow> string \<Rightarrow> string option" where
  "compute_sync_map_file_path gf gc root hierarchy_type custom_id file_name =
     (let prefix = (if hierarchy_type = HierarchyType_PAGED
                    then norm_join gf root custom_id else root);
          file_name_joined = norm_join gf prefix file_name
      in replace_placeholder gc (Some file_name_joined) custom_id)"

section \<open>Task construction\<close>

text \<open>
  \<open>_create_task(task_info, config_string, sync_map_root_directory,
  job_os_hierarchy_type)\<close>. \<open>task_info\<close> is the list \<open>[prefix, text_path,
  audio_path]\<close>, a triple here. The language is looked up under the task key; the
  \<open>KeyError\<close> of that lookup is caught and the job key is looked up instead, whose
  \<open>KeyError\<close> is not caught.
\<close>

definition create_task ::
  "globalfunctions \<Rightarrow> globalconstants \<Rightarrow> library \<Rightarrow> string \<times> string \<times> string \<Rightarrow>
   string \<Rightarrow> string \<Rightarrow> string \<Rightarrow> error + Task" where
  "create_task gf gc lib task_info config_string sync_map_root_directory job_os_hierarchy_type =
     (case task_info of (info0, info1, info2) \<Rightarrow>
      let parameters = config_string_to_dict gf config_string;
          task = new_Task lib config_string;
          conf = (configuration task)\<lparr>description := ''Task '' @ info0\<rparr>
      in bind_e (case parameters (PPN_TASK_LANGUAGE gc) of
                   Some l \<Rightarrow> Inr l
                 | None \<Rightarrow> getitem parameters (PPN_JOB_LANGUAGE gc))
           (\<lambda>lang.
              let conf = conf\<lparr>language := lang, task_custom_id := info0\<rparr>;
                  task = task\<lparr>text_file_path := info1, audio_file_path := info2,
                    sync_map_file_path :=
                      compute_sync_map_file_path gf gc sync_map_root_directory
                        job_os_hierarchy_type info0 (os_file_name conf)\<rparr>;
                  conf = conf\<lparr>os_file_smil_audio_ref :=
                    replace_placeholder gc (os_file_smil_audio_ref conf) info0\<rparr>;
                  conf = conf\<lparr>os_file_smil_page_ref :=
                    replace_placeholder gc (os_file_smil_page_ref conf) info0\<rparr>
              in Inr (task\<lparr>configuration := conf\<rparr>)))"

section \<open>Entry filter\<close>

text \<open>
  \<open>_find_files(entries, root, relative_path, file_name_regex)\<close>: the entries that
  start with the target and whose characters from position \<open>len(target) + 1\<close> on
  contain a match of the pattern, sorted.
\<close>

definition find_files ::
  "globalfunctions \<Rightarrow> string list \<Rightarrow> string \<Rightarrow> string option \<Rightarrow> regex \<Rightarrow> string list" where
  "find_files gf entries root relative_path file_name_regex =
     (let target = (case relative_path of
                      None \<Rightarrow> root
                    | Some rp \<Rightarrow> norm_join gf root rp);
          target_len = length target
      in sort (filter (\<lambda>entry. startswith entry target \<and>
                 re_search file_name_regex (drop (target_len + 1) entry)) entries))"

section \<open>Flat pairing\<close>

text \<open>
  \<open>_match_files_flat_hierarchy(text_files, audio_files)\<close>. A dictionary is an
  association list in insertion order: storing under a key that is present replaces
  the value in place, storing under a new key appends (\<open>AList.update\<close>).
\<close>

definition keyed :: "globalfunctions \<Rightarrow> string list \<Rightarrow> (string \<times> string) list" where
  "keyed gf files =
     foldl (\<lambda>d file. AList.update (file_name_without_extension gf file) file d) [] files"

definition match_files_flat_hierarchy ::
  "globalfunctions \<Rightarrow> string list \<Rightarrow> string list \<Rightarrow> (string \<times> string \<times> string) list" where
  "match_files_flat_hierarchy gf text_files audio_files =
     (let d_text = keyed gf text_files;
          d_audio = keyed gf audio_files
      in concat (map (\<lambda>(key, text_file).
                   case map_of d_audio key of
                     None \<Rightarrow> []
                   | Some audio_file \<Rightarrow> [(key, text_file, audio_file)]) d_text))"

section \<open>Paged directory matcher\<close>

text \<open>
  \<open>_match_directories(entries, root, regex_string)\<close>. The set of directories is
  the list of the names added, without duplicates and sorted at the end;
  \<open>directory_of\<close> is the body of the loop, the names one entry adds.
\<close>

definition directory_of :: "regex \<Rightarrow> string \<Rightarrow> string \<Rightarrow> string list" where
  "directory_of regex root entry =
     (if startswith entry root
      then (let entry_splitted = split_sep os_sep (drop (length root + 1) entry)
            in if length entry_splitted \<ge> 2 \<and> re_match regex (entry_splitted ! 0)
               then [entry_splitted ! 0] else [])
      else [])"

definition match_directories ::
  "library \<Rightarrow> string list \<Rightarrow> string \<Rightarrow> string \<Rightarrow> error + string list" where
  "match_directories lib entries root regex_string =
     bind_e (re_compile lib regex_string)
       (\<lambda>regex. Inr (sort (remdups (concat (map (directory_of regex root) entries)))))"

section \<open>Container analysis\<close>

text \<open>
  A \<open>for\<close> loop whose body may raise: the state is threaded through the elements,
  and the first exception ends the loop.
\<close>

fun fold_e :: "('s \<Rightarrow> 'a \<Rightarrow> error + 's) \<Rightarrow> 's \<Rightarrow> 'a list \<Rightarrow> error + 's" where
  "fold_e f s [] = Inr s"
| "fold_e f s (x # xs) = bind_e (f s x) (\<lambda>s'. fold_e f s' xs)"

text \<open>
  The body of the loop over the matched directories of a paged hierarchy. Of the
  debug log, the message that reports the decision taken for the directory is kept
  (one of the four messages of the \<open>if\<close>/\<open>elif\<close>/\<open>else\<close> chain); the state of
  the loop is the Job and the messages so far.
\<close>

definition quoted :: "string \<Rightarrow> string" where
  "quoted s = [CHR 0x27] @ s @ [CHR 0x27]"

definition paged_directory ::
  "globalfunctions \<Rightarrow> globalconstants \<Rightarrow> library \<Rightarrow> string list \<Rightarrow> string \<Rightarrow>
   string \<Rightarrow> regex \<Rightarrow> string \<Rightarrow> regex \<Rightarrow> string \<Rightarrow> string \<Rightarrow> string \<Rightarrow>
   Job \<times> string list \<Rightarrow> string \<Rightarrow> error + Job \<times> string list" where
  "paged_directory gf gc lib entries tasks_root_directory
     text_file_relative_path text_file_name_regex
     audio_file_relative_path audio_file_name_regex
     config_string sync_map_root_directory job_os_hierarchy_type state matched_directory =
     (case state of (job, log) \<Rightarrow>
      let matched_directory_full_path = norm_join gf tasks_root_directory matched_directory;
          text_files = find_files gf entries matched_directory_full_path
                         (Some text_file_relative_path) text_file_name_regex;
          audio_files = find_files gf entries matched_directory_full_path
                          (Some audio_file_relative_path) audio_file_name_regex
      in if length text_files = 1 \<and> length audio_files = 1
         then bind_e (create_task gf gc lib
                        (matched_directory, hd text_files, hd audio_files)
                        config_string sync_map_root_directory job_os_hierarchy_type)
                (\<lambda>task. Inr (add_task job task,
                   log @ [''Exactly one text file and one audio file in ''
                            @ quoted matched_directory]))
         else if length text_files > 1
         then Inr (job, log @ [''More than one text file in '' @ quoted matched_directory])
         else if length audio_files > 1
         then Inr (job, log @ [''More than one audio file in '' @ quoted matched_directory])
         else Inr (job, log @ [''No text nor audio file in '' @ quoted matched_directory]))"

text \<open>
  \<open>_analyze_txt_config(config_string)\<close>. With \<open>None\<close> the configuration is read
  from the TXT configuration entry of the container. The lookups are made in the
  order of the source, so the first missing key is the one reported.
\<close>

definition analyze_txt_config ::
  "globalfunctions \<Rightarrow> globalconstants \<Rightarrow> library \<Rightarrow> Container \<Rightarrow> string option \<Rightarrow>
   error + Job \<times> string list" where
  "analyze_txt_config gf gc lib container config_string_arg =
     (let (config_string, config_dir) =
            (case config_string_arg of
               None \<Rightarrow>
                 (let config_entry = entry_config_txt container
                  in (config_txt_to_string gf (read_entry container config_entry),
                      dirname config_entry))
             | Some cs \<Rightarrow> (cs, ''''));
          job = new_Job config_string;
          entries = container_entries container;
          parameters = config_string_to_dict gf config_string
      in
      bind_e (getitem parameters (PPN_JOB_IS_HIERARCHY_PREFIX gc)) (\<lambda>is_prefix.
      let tasks_root_directory = norm_join gf config_dir is_prefix in
      bind_e (getitem parameters (PPN_JOB_OS_HIERARCHY_PREFIX gc)) (\<lambda>os_prefix.
      let sync_map_root_directory = norm_join gf config_dir os_prefix in
      bind_e (getitem parameters (PPN_JOB_OS_HIERARCHY_TYPE gc)) (\<lambda>job_os_hierarchy_type.
      bind_e (getitem parameters (PPN_JOB_IS_TEXT_FILE_RELATIVE_PATH gc)) (\<lambda>text_file_relative_path.
      bind_e (getitem parameters (PPN_JOB_IS_TEXT_FILE_NAME_REGEX gc)) (\<lambda>text_regex_string.
      bind_e (re_compile lib text_regex_string) (\<lambda>text_file_name_regex.
      bind_e (getitem parameters (PPN_JOB_IS_AUDIO_FILE_RELATIVE_PATH gc)) (\<lambda>audio_file_relative_path.
      bind_e (getitem parameters (PPN_JOB_IS_AUDIO_FILE_NAME_REGEX gc)) (\<lambda>audio_regex_string.
      bind_e (re_compile lib audio_regex_string) (\<lambda>audio_file_name_regex.
      bind_e (getitem parameters (PPN_JOB_IS_HIERARCHY_TYPE gc)) (\<lambda>is_type.
      bind_e
        (if is_type = HierarchyType_FLAT
         then (let text_files = find_files gf entries tasks_root_directory
                                  (Some text_file_relative_path) text_file_name_regex;
                   audio_files = find_files gf entries tasks_root_directory
                                   (Some audio_file_relative_path) audio_file_name_regex;
                   matched_tasks = match_files_flat_hierarchy gf text_files audio_files
               in fold_e (\<lambda>job task_info.
                            bind_e (create_task gf gc lib task_info config_string
                                      sync_map_root_directory job_os_hierarchy_type)
                              (\<lambda>task. Inr (add_task job task)))
                    job matched_tasks)
         else Inr job) (\<lambda>job.
      if is_type = HierarchyType_PAGED
      then bind_e (getitem parameters (PPN_JOB_IS_TASK_DIRECTORY_NAME_REGEX gc)) (\<lambda>dir_regex_string.
           bind_e (match_directories lib entries tasks_root_directory dir_regex_string)
             (\<lambda>matched_directories.
                fold_e (paged_directory gf gc lib entries tasks_root_directory
                          text_file_relative_path text_file_name_regex
                          audio_file_relative_path audio_file_name_regex
                          config_string sync_map_root_directory job_os_hierarchy_type)
                  (job, []) matched_directories))
      else Inr (job, [])))))))))))))"

text \<open>
  \<open>_analyze_xml_config(config_contents)\<close>. With \<open>None\<close> the contents are read
  from the XML configuration entry of the container. One Task is created for each
  dictionary of task parameters; a missing custom identifier is the empty string
  (that \<open>KeyError\<close> is caught), a missing text or audio path raises.
\<close>

definition analyze_xml_config ::
  "globalfunctions \<Rightarrow> globalconstants \<Rightarrow> library \<Rightarrow> Container \<Rightarrow> string option \<Rightarrow>
   error + Job" where
  "analyze_xml_config gf gc lib container config_contents_arg =
     (let (config_contents, config_dir) =
            (case config_contents_arg of
               None \<Rightarrow>
                 (let config_entry = entry_config_xml container
                  in (read_entry container config_entry, dirname config_entry))
             | Some cc \<Rightarrow> (cc, ''''));
          job_parameters = config_xml_to_dict_job gf config_contents;
          tasks_parameters = config_xml_to_dict_tasks gf config_contents
      in
      bind_e (getitem job_parameters (PPN_JOB_OS_HIERARCHY_PREFIX gc)) (\<lambda>os_prefix.
      let sync_map_root_directory = norm_join gf config_dir os_prefix in
      bind_e (getitem job_parameters (PPN_JOB_OS_HIERARCHY_TYPE gc)) (\<lambda>job_os_hierarchy_type.
      let job = new_Job (config_dict_to_string gf job_parameters) in
      fold_e (\<lambda>job task_parameters.
                let config_string = config_dict_to_string gf task_parameters;
                    task_id = (case task_parameters (PPN_TASK_CUSTOM_ID gc) of
                                 Some v \<Rightarrow> v
                               | None \<Rightarrow> '''')
                in bind_e (getitem task_parameters (PPN_TASK_IS_TEXT_FILE_XML gc)) (\<lambda>text_file.
                   bind_e (getitem task_parameters (PPN_TASK_IS_AUDIO_FILE_XML gc)) (\<lambda>audio_file.
                   bind_e (create_task gf gc lib
                             (task_id, norm_join gf config_dir text_file,
                              norm_join gf config_dir audio_file)
                             config_string sync_map_root_directory job_os_hierarchy_type)
                     (\<lambda>task. Inr (add_task job task)))))
        job tasks_parameters)))"

text \<open>
  \<open>analyze()\<close>: the XML configuration when the container has one, else the TXT
  configuration when it has one, else \<open>None\<close>. The result is the Job (or
  \<open>None\<close>) with the decision messages of the paged loop.
\<close>

definition analyze ::
  "globalfunctions \<Rightarrow> globalconstants \<Rightarrow> library \<Rightarrow> Container \<Rightarrow>
   error + Job option \<times> string list" where
  "analyze gf gc lib container =
     (if has_config_xml container
      then bind_e (analyze_xml_config gf gc lib container None) (\<lambda>job. Inr (Some job, []))
      else if has_config_txt container
      then bind_e (analyze_txt_config gf gc lib container None)
             (\<lambda>(job, log). Inr (Some job, log))
      else Inr (None, []))"

section \<open>Concrete collaborators for running the model\<close>

text \<open>
  To run the analyzer on concrete containers the parameters need values. The path
  functions follow Python's \<open>posixpath\<close>: \<open>os.path.join\<close> of two paths,
  \<open>os.path.normpath\<close>, \<open>os.path.basename\<close> and \<open>os.path.splitext\<close> (on a
  name without separator: the extension starts at the last dot, unless only dots
  precede it).
\<close>

definition path_join :: "string \<Rightarrow> string \<Rightarrow> string" where
  "path_join a b =
     (if startswith b [os_sep] then b
      else if a = [] \<or> last a = os_sep then a @ b
      else a @ [os_sep] @ b)"

fun norm_comps :: "bool \<Rightarrow> string list \<Rightarrow> string list \<Rightarrow> string list" where
  "norm_comps rooted new_comps [] = new_comps"
| "norm_comps rooted new_comps (part # comps) =
     (if part = [] \<or> part = ''.'' then norm_comps rooted new_comps comps
      else if part \<noteq> ''..'' \<or> (\<not> rooted \<and> new_comps = [])
                \<or> (new_comps \<noteq> [] \<and> last new_comps = ''..'')
      then norm_comps rooted (new_comps @ [part]) comps
      else if new_comps \<noteq> [] then norm_comps rooted (butlast new_comps) comps
      else norm_comps rooted new_comps comps)"

fun join_sep :: "char \<Rightarrow> string list \<Rightarrow> string" where
  "join_sep sep [] = []"
| "join_sep sep [w] = w"
| "join_sep sep (w # v # ws) = w @ sep # join_sep sep (v # ws)"

definition normpath :: "string \<Rightarrow> string" where
  "normpath path =
     (if path = [] then ''.''
      else let initial_slashes =
                 (if startswith path [os_sep]
                  then (if startswith path [os_sep, os_sep]
                           \<and> \<not> startswith path [os_sep, os_sep, os_sep]
                        then 2 else 1)
                  else (0::nat));
               comps = norm_comps (initial_slashes \<noteq> 0) [] (split_sep os_sep path);
               p = replicate initial_slashes os_sep @ join_sep os_sep comps
           in if p = [] then ''.'' else p)"

definition basename :: "string \<Rightarrow> string" where
  "basename p = rev (takeWhile (\<lambda>c. c \<noteq> os_sep) (rev p))"

definition splitext_root :: "string \<Rightarrow> string" where
  "splitext_root name =
     (let ext = takeWhile (\<lambda>c. c \<noteq> CHR ''.'') (rev name);
          root = take (length name - length ext - 1) name
      in if CHR ''.'' \<in> set name \<and> filter (\<lambda>c. c \<noteq> CHR ''.'') root \<noteq> []
         then root else name)"

text \<open>
  The key of flat pairing. \<open>gf.file_name_without_extension\<close> is not among the
  sources; the docstring of \<open>_match_files_flat_hierarchy\<close> fixes what it returns:
  two files match if their names without the extension are the same, and
  \<open>foo/text/a.txt\<close> with \<open>foo/audio/a.mp3\<close> gives the key \<open>a\<close>. That is the
  base name of the path without its extension.
\<close>

definition name_without_extension :: "string \<Rightarrow> string" where
  "name_without_extension path = splitext_root (basename path)"

text \<open>
  A configuration string is a list of \<open>key=value\<close> pairs separated by \<open>|\<close>; a
  pair with an empty key or an empty value is dropped, and a later pair for a key
  replaces an earlier one; the TXT configuration file has one
  pair on each line. The structured configuration is not parsed as XML here: the
  stand-in reads the job parameters from the first line of the contents and one
  task from each further line, in the same \<open>key=value\<close> syntax.
\<close>

definition pair_of :: "string \<Rightarrow> (string \<times> string) list" where
  "pair_of kv =
     (case split_sep CHR ''='' kv of
        [k, v] \<Rightarrow> if k \<noteq> [] \<and> v \<noteq> [] then [(k, v)] else []
      | _ \<Rightarrow> [])"

definition string_to_dict :: "string \<Rightarrow> (string \<rightharpoonup> string)" where
  "string_to_dict s = map_of (rev (concat (map pair_of (split_sep CHR ''|'' s))))"

definition txt_to_string :: "string \<Rightarrow> string" where
  "txt_to_string contents = map (\<lambda>c. if c = CHR 0x0A then CHR ''|'' else c) contents"

definition dict_to_string :: "string list \<Rightarrow> (string \<rightharpoonup> string) \<Rightarrow> string" where
  "dict_to_string keys d =
     join_sep CHR ''|''
       (concat (map (\<lambda>k. case d k of None \<Rightarrow> [] | Some v \<Rightarrow> [k @ ''='' @ v]) keys))"

definition lines_job :: "string \<Rightarrow> (string \<rightharpoonup> string)" where
  "lines_job contents = string_to_dict (hd (split_sep CHR 0x0A contents))"

definition lines_tasks :: "string \<Rightarrow> (string \<rightharpoonup> string) list" where
  "lines_tasks contents = map string_to_dict (tl (split_sep CHR 0x0A contents))"

definition aeneas_gc :: globalconstants where
  "aeneas_gc = \<lparr>
     PPV_OS_TASK_PREFIX = ''$PREFIX'',
     PPN_TASK_LANGUAGE = ''task_language'',
     PPN_JOB_LANGUAGE = ''job_language'',
     PPN_TASK_CUSTOM_ID = ''task_custom_id'',
     PPN_TASK_IS_TEXT_FILE_XML = ''is_text_file'',
     PPN_TASK_IS_AUDIO_FILE_XML = ''is_audio_file'',
     PPN_JOB_IS_HIERARCHY_TYPE = ''is_hierarchy_type'',
     PPN_JOB_IS_HIERARCHY_PREFIX = ''is_hierarchy_prefix'',
     PPN_JOB_IS_TEXT_FILE_RELATIVE_PATH = ''is_text_file_relative_path'',
     PPN_JOB_IS_TEXT_FILE_NAME_REGEX = ''is_text_file_name_regex'',
     PPN_JOB_IS_AUDIO_FILE_RELATIVE_PATH = ''is_audio_file_relative_path'',
     PPN_JOB_IS_AUDIO_FILE_NAME_REGEX = ''is_audio_file_name_regex'',
     PPN_JOB_IS_TASK_DIRECTORY_NAME_REGEX = ''is_task_dir_name_regex'',
     PPN_JOB_OS_HIERARCHY_TYPE = ''os_job_file_hierarchy_type'',
     PPN_JOB_OS_HIERARCHY_PREFIX = ''os_job_file_hierarchy_prefix''\<rparr>"

definition aeneas_keys :: "string list" where
  "aeneas_keys =
     [''job_language'', ''task_language'', ''task_custom_id'', ''is_text_file'',
      ''is_audio_file'', ''os_job_file_hierarchy_type'', ''os_job_file_hierarchy_prefix'',
      ''os_task_file_name'', ''os_task_file_smil_audio_ref'', ''os_task_file_smil_page_ref'']"

definition aeneas_gf :: globalfunctions where
  "aeneas_gf = \<lparr>
     norm_join = (\<lambda>prefix suffix. normpath (path_join prefix suffix)),
     file_name_without_extension = name_without_extension,
     config_txt_to_string = txt_to_string,
     config_string_to_dict = string_to_dict,
     config_dict_to_string = dict_to_string aeneas_keys,
     config_xml_to_dict_job = lines_job,
     config_xml_to_dict_tasks = lines_tasks\<rparr>"

text \<open>
  A Task built from a configuration string takes its output file name and its two
  reference templates from the string. Patterns are compiled for a fragment of the
  syntax: literal characters, \<open>.\<close>, an escaped punctuation character, a class
  \<open>[...]\<close> of characters and ranges, and the postfix operators \<open>*\<close> and
  \<open>+\<close>. Everything else is refused, also where Python accepts it: anchors,
  groups, alternation, the other repetitions, an escaped letter or digit (a
  character class or a special sequence in Python), a negated class and an escape
  inside a class.
\<close>

definition task_of_string :: "string \<Rightarrow> Task" where
  "task_of_string config_string =
     (let d = string_to_dict config_string
      in \<lparr>task_config_string = config_string,
          configuration = \<lparr>
            description = '''',
            language = '''',
            task_custom_id = '''',
            os_file_name = (case d ''os_task_file_name'' of None \<Rightarrow> '''' | Some v \<Rightarrow> v),
            os_file_smil_audio_ref = d ''os_task_file_smil_audio_ref'',
            os_file_smil_page_ref = d ''os_task_file_smil_page_ref''\<rparr>,
          text_file_path = '''',
          audio_file_path = '''',
          sync_map_file_path = None\<rparr>)"

datatype compile_mode = Plain | Escaped | InClass "char list"

definition char_range :: "char \<Rightarrow> char \<Rightarrow> char list" where
  "char_range a b = map char_of [of_char a ..< Suc (of_char b) :: nat]"

fun compile_scan :: "compile_mode \<Rightarrow> regex list \<Rightarrow> string \<Rightarrow> regex list option" where
  "compile_scan Plain atoms [] = Some atoms"
| "compile_scan mode atoms [] = None"
| "compile_scan Escaped atoms (c # cs) =
     (if c \<in> set ''abcdefghijklmnopqrstuvwxyzABCDEFGHIJKLMNOPQRSTUVWXYZ0123456789''
      then None
      else compile_scan Plain (Sym [c] # atoms) cs)"
| "compile_scan (InClass xs) atoms [c] =
     (if c = CHR '']'' then Some (Sym xs # atoms) else None)"
| "compile_scan (InClass xs) atoms (c # d # cs) =
     (if c = CHR '']'' then compile_scan Plain (Sym xs # atoms) (d # cs)
      else if (c = CHR ''^'' \<and> xs = []) \<or> c = CHR 0x5C then None
      else if c = CHR ''-'' \<and> xs \<noteq> [] \<and> d \<noteq> CHR '']''
      then compile_scan (InClass (butlast xs @ char_range (last xs) d)) atoms cs
      else compile_scan (InClass (xs @ [c])) atoms (d # cs))"
| "compile_scan Plain atoms (c # cs) =
     (if c = CHR 0x5C then compile_scan Escaped atoms cs
      else if c = CHR ''['' then compile_scan (InClass []) atoms cs
      else if c = CHR ''.'' then compile_scan Plain (NSym [CHR 0x0A] # atoms) cs
      else if c = CHR ''*'' then
        (case atoms of [] \<Rightarrow> None | r # rs \<Rightarrow> compile_scan Plain (Star r # rs) cs)
      else if c = CHR ''+'' then
        (case atoms of [] \<Rightarrow> None | r # rs \<Rightarrow> compile_scan Plain (Seq r (Star r) # rs) cs)
      else if c \<in> set ''()|^$?{}'' then None
      else compile_scan Plain (Sym [c] # atoms) cs)"

definition compile_pattern :: "string \<Rightarrow> error + regex" where
  "compile_pattern s =
     (case compile_scan Plain [] s of
        None \<Rightarrow> Inl (ReError s)
      | Some atoms \<Rightarrow> Inr (foldl (\<lambda>r a. Seq a r) Eps atoms))"

definition aeneas_lib :: library where
  "aeneas_lib = \<lparr>new_Task = task_of_string, re_compile = compile_pattern\<rparr>"

section \<open>Sample containers\<close>

text \<open>
  A container that has both configuration forms, and three containers whose
  configuration names no language: a flat and a paged hierarchy with a TXT
  configuration, and an XML configuration with one task. \<open>compiled_txt\<close> and
  \<open>compiled_mp3\<close> are the pattern objects of \<open>[.]txt\<close> and \<open>[.]mp3\<close>. \<open>summary\<close> keeps, of the result of an
  analysis, the identifier, language, paths and output path of each Task.
\<close>

definition two_config_container :: Container where
  "two_config_container = \<lparr>
     has_config_xml = True,
     has_config_txt = True,
     entry_config_xml = ''OEBPS/config.xml'',
     entry_config_txt = ''OEBPS/config.txt'',
     container_entries = [''OEBPS/config.txt'', ''OEBPS/config.xml'',
                          ''OEBPS/text/a.txt'', ''OEBPS/audio/a.mp3''],
     read_entry = (\<lambda>p.
       if p = ''OEBPS/config.xml''
       then ''os_job_file_hierarchy_type=flat|os_job_file_hierarchy_prefix=out|job_language=en''
            @ [CHR 0x0A]
            @ ''task_custom_id=t1|task_language=it|is_text_file=text/a.txt|is_audio_file=audio/a.mp3|os_task_file_name=$PREFIX.smil''
       else if p = ''OEBPS/config.txt''
       then ''is_hierarchy_type=flat|is_hierarchy_prefix=.|is_text_file_relative_path=text|is_text_file_name_regex=.*[.]txt|is_audio_file_relative_path=audio|is_audio_file_name_regex=.*[.]mp3|os_job_file_hierarchy_type=flat|os_job_file_hierarchy_prefix=sync|os_task_file_name=$PREFIX.json|job_language=de''
       else [])\<rparr>"

definition no_language_container :: Container where
  "no_language_container = \<lparr>
     has_config_xml = False,
     has_config_txt = True,
     entry_config_xml = [],
     entry_config_txt = ''config.txt'',
     container_entries = [''config.txt'', ''text/a.txt'', ''audio/a.mp3''],
     read_entry = (\<lambda>p.
       if p = ''config.txt''
       then ''is_hierarchy_type=flat|is_hierarchy_prefix=.|is_text_file_relative_path=text|is_text_file_name_regex=[.]txt|is_audio_file_relative_path=audio|is_audio_file_name_regex=[.]mp3|os_job_file_hierarchy_type=flat|os_job_file_hierarchy_prefix=sync|os_task_file_name=$PREFIX.json''
       else [])\<rparr>"

definition xml_no_language_container :: Container where
  "xml_no_language_container = \<lparr>
     has_config_xml = True,
     has_config_txt = False,
     entry_config_xml = ''config.xml'',
     entry_config_txt = [],
     container_entries = [''config.xml'', ''text/a.txt'', ''audio/a.mp3''],
     read_entry = (\<lambda>p.
       if p = ''config.xml''
       then ''os_job_file_hierarchy_type=flat|os_job_file_hierarchy_prefix=out''
            @ [CHR 0x0A]
            @ ''task_custom_id=t1|is_text_file=text/a.txt|is_audio_file=audio/a.mp3|os_task_file_name=$PREFIX.smil''
       else [])\<rparr>"

definition paged_no_language_container :: Container where
  "paged_no_language_container = \<lparr>
     has_config_xml = False,
     has_config_txt = True,
     entry_config_xml = [],
     entry_config_txt = ''config.txt'',
     container_entries = [''config.txt'', ''r/1/page.txt'', ''r/1/page.mp3'', ''r/2/page.txt''],
     read_entry = (\<lambda>p.
       if p = ''config.txt''
       then ''is_hierarchy_type=paged|is_hierarchy_prefix=r|is_text_file_relative_path=.|is_text_file_name_regex=[.]txt|is_audio_file_relative_path=.|is_audio_file_name_regex=[.]mp3|is_task_dir_name_regex=[0-9]+|os_job_file_hierarchy_type=paged|os_job_file_hierarchy_prefix=out|os_task_file_name=$PREFIX.smil''
       else [])\<rparr>"

definition compiled_txt :: regex where
  "compiled_txt = Seq (Sym ''.'') (Seq (Sym ''t'') (Seq (Sym ''x'') (Seq (Sym ''t'') Eps)))"

definition compiled_mp3 :: regex where
  "compiled_mp3 = Seq (Sym ''.'') (Seq (Sym ''m'') (Seq (Sym ''p'') (Seq (Sym ''3'') Eps)))"

definition summary :: "error + Job option \<times> string list \<Rightarrow> error + (string \<times> string \<times> string \<times> string \<times> string option) list option \<times> string list" where
  "summary = map_sum id (map_prod (map_option (\<lambda>job. map (\<lambda>t. (task_custom_id (configuration t), language (configuration t), text_file_path t, audio_file_path t, sync_map_file_path t)) (tasks job))) id)"

text \<open>
  A container with a paged hierarchy: directory 1 has one text and one audio file,
  directory 2 a text file only, directory 3 neither, directory 4 two text files,
  directory 5 two audio files. The two patterns are a literal \<open>.txt\<close> and a
  literal \<open>.mp3\<close>.
\<close>

definition paged_container :: Container where
  "paged_container = \<lparr>
     has_config_xml = False,
     has_config_txt = True,
     entry_config_xml = [],
     entry_config_txt = ''config.txt'',
     container_entries = [''config.txt'', ''r/1/page.txt'', ''r/1/page.mp3'', ''r/2/page.txt'',
                          ''r/3/other.bin'', ''r/4/a.txt'', ''r/4/b.txt'', ''r/4/a.mp3'',
                          ''r/5/a.txt'', ''r/5/a.mp3'', ''r/5/b.mp3''],
     read_entry = (\<lambda>p.
       if p = ''config.txt''
       then ''is_hierarchy_type=paged|is_hierarchy_prefix=r|is_text_file_relative_path=.|is_text_file_name_regex=.*[.]txt|is_audio_file_relative_path=.|is_audio_file_name_regex=.*[.]mp3|is_task_dir_name_regex=[0-9]+|os_job_file_hierarchy_type=paged|os_job_file_hierarchy_prefix=out|os_task_file_name=$PREFIX.smil|job_language=en''
       else [])\<rparr>"

definition txt_pattern :: regex where
  "txt_pattern = Seq (Sym ''.'') (Seq (Sym ''t'') (Seq (Sym ''x'') (Sym ''t'')))"

definition mp3_pattern :: regex where
  "mp3_pattern = Seq (Sym ''.'') (Seq (Sym ''m'') (Seq (Sym ''p'') (Sym ''3'')))"

definition paged_entries :: "string list" where
  "paged_entries = container_entries paged_container"

section \<open>Properties of the string primitives\<close>

lemma startswith_Nil [simp]: "startswith s []"
  by (simp add: startswith_def)


lemma startswith_Nil_left: "startswith [] p = (p = [])"
  by (auto simp: startswith_def)

lemma startswith_iff: "startswith s p = (\<exists>t. s = p @ t)"
  unfolding startswith_def
  by (metis append_eq_conv_conj append_take_drop_id)






text \<open>
  What the scan computes: a string without occurrence of \<open>old\<close> is unchanged, and
  the leftmost occurrence is replaced and the scan resumes behind it.
\<close>

lemma contains_iff: "contains s old \<longleftrightarrow> (\<exists>a b. s = a @ old @ b)"
proof (induction s)
  case Nil
  then show ?case by auto
next
  case (Cons c cs)
  show ?case
  proof
    assume "contains (c # cs) old"
    then consider "startswith (c # cs) old" | "contains cs old" by auto
    then show "\<exists>a b. c # cs = a @ old @ b"
    proof cases
      case 1
      then obtain t where "c # cs = [] @ old @ t" by (auto simp: startswith_iff)
      then show ?thesis by blast
    next
      case 2
      then obtain a b where "cs = a @ old @ b" using Cons.IH by blast
      then have "c # cs = (c # a) @ old @ b" by simp
      then show ?thesis by blast
    qed
  next
    assume "\<exists>a b. c # cs = a @ old @ b"
    then obtain a b where ab: "c # cs = a @ old @ b" by blast
    show "contains (c # cs) old"
    proof (cases a)
      case Nil
      then have "startswith (c # cs) old" using ab by (auto simp: startswith_iff)
      then show ?thesis by simp
    next
      case (Cons x a')
      then have "cs = a' @ old @ b" using ab by simp
      then have "contains cs old" using Cons.IH by blast
      then show ?thesis by simp
    qed
  qed
qed

lemma startswith_append_long:
  "length p \<le> length u \<Longrightarrow> startswith (u @ v) p = startswith u p"
  by (simp add: startswith_def)

lemma replace_scan_first:
  assumes "old \<noteq> []" and "\<not> contains (a @ butlast old) old"
  shows "replace_scan old new (a @ old @ b) = a @ new @ replace_scan old new b"
  using assms(2)
proof (induction a)
  case Nil
  obtain x xs where old: "old = x # xs" using assms(1) by (cases old) auto
  have "startswith (old @ b) old" by (simp add: startswith_iff)
  then show ?case using old by simp
next
  case (Cons x a)
  have split: "(x # a) @ old @ b = ((x # a) @ butlast old) @ (last old # b)"
    using assms(1) by simp
  have "length old \<le> length ((x # a) @ butlast old)" by simp
  then have "startswith ((x # a) @ old @ b) old = startswith ((x # a) @ butlast old) old"
    unfolding split by (rule startswith_append_long)
  moreover have "\<not> startswith ((x # a) @ butlast old) old" "\<not> contains (a @ butlast old) old"
    using Cons.prems by auto
  ultimately have "\<not> startswith ((x # a) @ old @ b) old" by simp
  then show ?case using Cons.IH \<open>\<not> contains (a @ butlast old) old\<close> by simp
qed

lemma str_replace_first:
  "old \<noteq> [] \<Longrightarrow> \<not> contains (a @ butlast old) old \<Longrightarrow>
   str_replace old new (a @ old @ b) = a @ new @ str_replace old new b"
  by (simp add: str_replace_def replace_scan_first)

section \<open>Placeholder substitution: idempotence\<close>





section \<open>Output path by hierarchy kind\<close>

text \<open>
  C6. The sync-map path is, for the Paged kind, the root joined with the identifier
  and then with the file name, and for the Flat kind the root joined with the file
  name; in both, every occurrence of the placeholder in the joined path that the
  left-to-right scan meets is replaced by the identifier.
\<close>

theorem compute_sync_map_file_path_by_kind:
  "(hierarchy_type = HierarchyType_PAGED \<longrightarrow>
      compute_sync_map_file_path gf gc root hierarchy_type ident file_name =
        Some (str_replace (PPV_OS_TASK_PREFIX gc) ident
                (norm_join gf (norm_join gf root ident) file_name)))
   \<and> (hierarchy_type = HierarchyType_FLAT \<longrightarrow>
      compute_sync_map_file_path gf gc root hierarchy_type ident file_name =
        Some (str_replace (PPV_OS_TASK_PREFIX gc) ident (norm_join gf root file_name)))"
  by (simp add: compute_sync_map_file_path_def replace_placeholder_def
      HierarchyType_PAGED_def HierarchyType_FLAT_def)

lemma sync_map_path_paged_example: "str_replace (PPV_OS_TASK_PREFIX aeneas_gc) ''ch01''
        (norm_join aeneas_gf (norm_join aeneas_gf ''out'' ''ch01'') ''$PREFIX.smil'') = ''out/ch01/ch01.smil''"
  by code_simp

lemma sync_map_path_flat_example: "str_replace (PPV_OS_TASK_PREFIX aeneas_gc) ''ch01''
        (norm_join aeneas_gf ''out'' ''$PREFIX.smil'') = ''out/ch01.smil''"
  by code_simp

theorem compute_sync_map_file_path_by_kind_witness:
  "''paged'' = HierarchyType_PAGED \<and> ''flat'' = HierarchyType_FLAT
   \<and> compute_sync_map_file_path aeneas_gf aeneas_gc ''out'' ''paged'' ''ch01'' ''$PREFIX.smil''
       = Some ''out/ch01/ch01.smil''
   \<and> compute_sync_map_file_path aeneas_gf aeneas_gc ''out'' ''flat'' ''ch01'' ''$PREFIX.smil''
       = Some ''out/ch01.smil''"
proof -
  have p: "''paged'' = HierarchyType_PAGED" by (simp add: HierarchyType_PAGED_def)
  have f: "''flat'' = HierarchyType_FLAT" by (simp add: HierarchyType_FLAT_def)
  have "compute_sync_map_file_path aeneas_gf aeneas_gc ''out'' ''paged'' ''ch01'' ''$PREFIX.smil''
       = Some ''out/ch01/ch01.smil''"
    using compute_sync_map_file_path_by_kind [of "''paged''" aeneas_gf aeneas_gc "''out''" "''ch01''" "''$PREFIX.smil''"] p sync_map_path_paged_example
    by simp
  moreover have "compute_sync_map_file_path aeneas_gf aeneas_gc ''out'' ''flat'' ''ch01'' ''$PREFIX.smil''
       = Some ''out/ch01.smil''"
    using compute_sync_map_file_path_by_kind [of "''flat''" aeneas_gf aeneas_gc "''out''" "''ch01''" "''$PREFIX.smil''"] f sync_map_path_flat_example
    by simp
  ultimately show ?thesis using p f by simp
qed

section \<open>Language of a Task: the lookup\<close>

lemma bind_e_simps [simp]:
  "bind_e (Inl e) f = Inl e"
  "bind_e (Inr v) f = f v"
  by (simp_all add: bind_e_def)

lemma create_task_from_task_key:
  assumes "config_string_to_dict gf config_string (PPN_TASK_LANGUAGE gc) = Some l"
  shows "\<exists>t. create_task gf gc lib info config_string root kind = Inr t
           \<and> language (configuration t) = l"
  using assms by (cases info) (simp add: create_task_def Let_def)

lemma create_task_from_job_key:
  assumes "config_string_to_dict gf config_string (PPN_TASK_LANGUAGE gc) = None"
    and "config_string_to_dict gf config_string (PPN_JOB_LANGUAGE gc) = Some l"
  shows "\<exists>t. create_task gf gc lib info config_string root kind = Inr t
           \<and> language (configuration t) = l"
  using assms by (cases info) (simp add: create_task_def Let_def getitem_def)

lemma create_task_no_language:
  assumes "config_string_to_dict gf config_string (PPN_TASK_LANGUAGE gc) = None"
    and "config_string_to_dict gf config_string (PPN_JOB_LANGUAGE gc) = None"
  shows "create_task gf gc lib info config_string root kind = Inl (KeyError (PPN_JOB_LANGUAGE gc))"
  using assms by (cases info) (simp add: create_task_def Let_def getitem_def)

lemma fold_e_first_error:
  "units \<noteq> [] \<Longrightarrow> (\<And>s x. f s x = Inl e) \<Longrightarrow> fold_e f s units = Inl e"
  by (cases units) simp_all

section \<open>Choice of the configuration form\<close>

text \<open>
  C10. When the container has an XML configuration, \<open>analyze\<close> is the analysis of
  the XML configuration, whether or not a TXT configuration is present; the result
  does not depend on the presence flag or the path of the TXT configuration, nor on
  the contents of any entry other than the XML configuration entry.
\<close>

theorem analyze_structured_first:
  assumes "has_config_xml container"
  shows "analyze gf gc lib container =
           bind_e (analyze_xml_config gf gc lib container None) (\<lambda>job. Inr (Some job, []))
         \<and> (\<forall>b p r. r (entry_config_xml container) = read_entry container (entry_config_xml container)
              \<longrightarrow> analyze gf gc lib
                    (container\<lparr>has_config_txt := b, entry_config_txt := p, read_entry := r\<rparr>)
                  = analyze gf gc lib container)"
  using assms by (simp add: analyze_def analyze_xml_config_def)

theorem analyze_structured_first_witness:
  "has_config_xml two_config_container \<and> has_config_txt two_config_container
   \<and> analyze aeneas_gf aeneas_gc aeneas_lib two_config_container
       = bind_e (analyze_xml_config aeneas_gf aeneas_gc aeneas_lib two_config_container None)
           (\<lambda>job. Inr (Some job, []))
   \<and> summary (analyze aeneas_gf aeneas_gc aeneas_lib two_config_container)
       = Inr (Some [(''t1'', ''it'', ''OEBPS/text/a.txt'', ''OEBPS/audio/a.mp3'',
                     Some ''OEBPS/out/t1.smil'')], [])
   \<and> analyze aeneas_gf aeneas_gc aeneas_lib
         (two_config_container\<lparr>has_config_txt := False, entry_config_txt := ''elsewhere'',
            read_entry := (\<lambda>p. if p = ''OEBPS/config.txt'' then ''job_language=fr''
                               else read_entry two_config_container p)\<rparr>)
       = analyze aeneas_gf aeneas_gc aeneas_lib two_config_container"
proof -
  have h: "has_config_xml two_config_container" "has_config_txt two_config_container"
    by (simp_all add: two_config_container_def)
  have r: "(\<lambda>p. if p = ''OEBPS/config.txt'' then ''job_language=fr''
                 else read_entry two_config_container p) (entry_config_xml two_config_container)
           = read_entry two_config_container (entry_config_xml two_config_container)"
    by (simp add: two_config_container_def)
  have s: "summary (analyze aeneas_gf aeneas_gc aeneas_lib two_config_container)
       = Inr (Some [(''t1'', ''it'', ''OEBPS/text/a.txt'', ''OEBPS/audio/a.mp3'',
                     Some ''OEBPS/out/t1.smil'')], [])"
    by code_simp
  note T = analyze_structured_first [OF h(1), of aeneas_gf aeneas_gc aeneas_lib]
  have e: "analyze aeneas_gf aeneas_gc aeneas_lib
         (two_config_container\<lparr>has_config_txt := False, entry_config_txt := ''elsewhere'',
            read_entry := (\<lambda>p. if p = ''OEBPS/config.txt'' then ''job_language=fr''
                               else read_entry two_config_container p)\<rparr>)
       = analyze aeneas_gf aeneas_gc aeneas_lib two_config_container"
    using conjunct2 [OF T, rule_format,
        where r = "\<lambda>p. if p = ''OEBPS/config.txt'' then ''job_language=fr''
                       else read_entry two_config_container p"
          and b = False and p = "''elsewhere''"] r
    by simp
  show ?thesis using conjunct1 [OF T] h s e by simp
qed

section \<open>Flat pairing: keys and emitted triples\<close>

lemma map_of_foldl_update:
  "map_of (foldl (\<lambda>d file. AList.update (key file) file d) d0 files) k =
     (if filter (\<lambda>f. key f = k) files = [] then map_of d0 k
      else Some (last (filter (\<lambda>f. key f = k) files)))"
proof (induction files arbitrary: d0)
  case Nil
  then show ?case by simp
next
  case (Cons x xs)
  show ?case
    by (simp add: Cons.IH update_conv')
qed

lemma distinct_foldl_update:
  "distinct (map fst d0) \<Longrightarrow>
   distinct (map fst (foldl (\<lambda>d file. AList.update (key file) file d) d0 files))"
  by (induction files arbitrary: d0) (simp_all add: distinct_update)

lemma map_of_keyed:
  "map_of (keyed gf files) k =
     (if filter (\<lambda>f. file_name_without_extension gf f = k) files = [] then None
      else Some (last (filter (\<lambda>f. file_name_without_extension gf f = k) files)))"
  by (simp add: keyed_def map_of_foldl_update)

lemma distinct_keyed: "distinct (map fst (keyed gf files))"
  by (simp add: keyed_def distinct_foldl_update)

lemma dom_keyed: "dom (map_of (keyed gf files)) = file_name_without_extension gf ` set files"
  by (auto simp: dom_def map_of_keyed filter_empty_conv)

lemma pairs_keys:
  "map fst (concat (map (\<lambda>(key, text_file).
       case m key of None \<Rightarrow> [] | Some audio_file \<Rightarrow> [(key, text_file, audio_file)]) d))
   = filter (\<lambda>k. m k \<noteq> None) (map fst d)"
  by (induction d) (auto split: option.splits)

lemma pairs_set:
  "set (concat (map (\<lambda>(key, text_file).
       case m key of None \<Rightarrow> [] | Some audio_file \<Rightarrow> [(key, text_file, audio_file)]) d))
   = {(k, t, a). (k, t) \<in> set d \<and> m k = Some a}"
  by (induction d) (auto split: option.splits)

lemma set_match_files_flat_hierarchy:
  "set (match_files_flat_hierarchy gf text_files audio_files) =
     {(k, t, a). map_of (keyed gf text_files) k = Some t \<and> map_of (keyed gf audio_files) k = Some a}"
  by (auto simp: match_files_flat_hierarchy_def Let_def pairs_set distinct_keyed)

lemma distinct_match_files_flat_hierarchy:
  "distinct (map fst (match_files_flat_hierarchy gf text_files audio_files))"
  by (simp add: match_files_flat_hierarchy_def Let_def pairs_keys distinct_keyed)

text \<open>
  C7. The keys of the emitted triples are pairwise different and are exactly the
  keys present in both dictionaries (the keys of the text entries that are also keys
  of audio entries); the paths of a triple are the last entry of each list that has
  the key of the triple.
\<close>

theorem flat_pairing_common_keys:
  "distinct (map fst (match_files_flat_hierarchy gf text_files audio_files))
   \<and> fst ` set (match_files_flat_hierarchy gf text_files audio_files)
       = dom (map_of (keyed gf text_files)) \<inter> dom (map_of (keyed gf audio_files))
   \<and> dom (map_of (keyed gf text_files)) = file_name_without_extension gf ` set text_files
   \<and> dom (map_of (keyed gf audio_files)) = file_name_without_extension gf ` set audio_files
   \<and> (\<forall>(k, t, a) \<in> set (match_files_flat_hierarchy gf text_files audio_files).
         t = last (filter (\<lambda>f. file_name_without_extension gf f = k) text_files)
         \<and> a = last (filter (\<lambda>f. file_name_without_extension gf f = k) audio_files))"
proof -
  have "fst ` set (match_files_flat_hierarchy gf text_files audio_files)
       = dom (map_of (keyed gf text_files)) \<inter> dom (map_of (keyed gf audio_files))"
    by (force simp: set_match_files_flat_hierarchy dom_def)
  moreover have "\<forall>(k, t, a) \<in> set (match_files_flat_hierarchy gf text_files audio_files).
         t = last (filter (\<lambda>f. file_name_without_extension gf f = k) text_files)
         \<and> a = last (filter (\<lambda>f. file_name_without_extension gf f = k) audio_files)"
    by (auto simp: set_match_files_flat_hierarchy map_of_keyed split: if_splits)
  ultimately show ?thesis
    by (simp add: distinct_match_files_flat_hierarchy dom_keyed)
qed

lemma flat_pairing_example:
  "match_files_flat_hierarchy aeneas_gf [''a/x.txt'', ''b/x.txt'', ''c/y.txt''] [''x.mp3'', ''z.mp3'']
     = [(''x'', ''b/x.txt'', ''x.mp3'')]"
  by code_simp

theorem flat_pairing_common_keys_witness:
  "distinct (map fst [(''x'', ''b/x.txt'', ''x.mp3'')])
   \<and> (''x'', ''b/x.txt'', ''x.mp3'')
       \<in> set (match_files_flat_hierarchy aeneas_gf
                [''a/x.txt'', ''b/x.txt'', ''c/y.txt''] [''x.mp3'', ''z.mp3''])
   \<and> ''x.mp3'' = last (filter (\<lambda>f. file_name_without_extension aeneas_gf f = ''x'')
                        [''x.mp3'', ''z.mp3''])
   \<and> match_files_flat_hierarchy aeneas_gf [''a/x.txt'', ''b/x.txt'', ''c/y.txt''] [''x.mp3'', ''z.mp3'']
       = [(''x'', ''b/x.txt'', ''x.mp3'')]
   \<and> last (filter (\<lambda>f. file_name_without_extension aeneas_gf f = ''x'')
               [''a/x.txt'', ''b/x.txt'', ''c/y.txt'']) = ''b/x.txt''"
proof -
  have l: "last (filter (\<lambda>f. file_name_without_extension aeneas_gf f = ''x'')
               [''a/x.txt'', ''b/x.txt'', ''c/y.txt'']) = ''b/x.txt''"
    by code_simp
  from flat_pairing_common_keys [of aeneas_gf "[''a/x.txt'', ''b/x.txt'', ''c/y.txt'']"
      "[''x.mp3'', ''z.mp3'']"] flat_pairing_example l
  show ?thesis by simp
qed

section \<open>Flat pairing: the key of an entry\<close>

lemma basename_append:
  "os_sep \<notin> set name \<Longrightarrow> basename (dir @ os_sep # name) = name"
proof -
  assume a: "os_sep \<notin> set name"
  have "takeWhile (\<lambda>c. c \<noteq> os_sep) (rev name @ os_sep # rev dir) = rev name"
    using a by (subst takeWhile_append2) auto
  then show ?thesis by (simp add: basename_def)
qed

lemma pairing_two_directories: "match_files_flat_hierarchy aeneas_gf [''a/x.txt''] [''b/x.mp3'']
       = [(''x'', ''a/x.txt'', ''b/x.mp3'')]"
  by code_simp

lemma pairing_one_directory: "match_files_flat_hierarchy aeneas_gf [''a/x.txt''] [''a/x.mp3'']
       = [(''x'', ''a/x.txt'', ''a/x.mp3'')]"
  by code_simp

text \<open>
  With the key documented in the source (the name without directory and
  extension), a text entry and an audio entry of different directories pair, and the
  key of \<open>a/x.txt\<close> is \<open>x\<close>, not \<open>a/x\<close>.
\<close>

theorem flat_pairing_across_directories:
  "match_files_flat_hierarchy aeneas_gf [''a/x.txt''] [''b/x.mp3'']
       = [(''x'', ''a/x.txt'', ''b/x.mp3'')]
   \<and> match_files_flat_hierarchy aeneas_gf [''a/x.txt''] [''a/x.mp3'']
       \<noteq> [(''a/x'', ''a/x.txt'', ''a/x.mp3'')]"
  by (simp add: pairing_two_directories pairing_one_directory)

text \<open>
  C2 (as amended). One text entry and one audio entry pair exactly when the helper
  gives them the same key, and the triple is the key with the two paths; the key is
  the base name of the entry without its extension, so the directories before the
  last separator play no part in it.
\<close>

theorem flat_pairing_key_is_base_name:
  "match_files_flat_hierarchy gf [text_file] [audio_file] =
     (if file_name_without_extension gf text_file = file_name_without_extension gf audio_file
      then [(file_name_without_extension gf text_file, text_file, audio_file)] else [])
   \<and> file_name_without_extension aeneas_gf path = splitext_root (basename path)
   \<and> (os_sep \<notin> set name \<longrightarrow>
        file_name_without_extension aeneas_gf (dir @ os_sep # name)
          = file_name_without_extension aeneas_gf name)"
proof -
  have "match_files_flat_hierarchy gf [text_file] [audio_file] =
     (if file_name_without_extension gf text_file = file_name_without_extension gf audio_file
      then [(file_name_without_extension gf text_file, text_file, audio_file)] else [])"
    by (simp add: match_files_flat_hierarchy_def keyed_def)
  moreover have "os_sep \<notin> set name \<longrightarrow>
        file_name_without_extension aeneas_gf (dir @ os_sep # name)
          = file_name_without_extension aeneas_gf name"
  proof
    assume a: "os_sep \<notin> set name"
    have "takeWhile (\<lambda>c. c \<noteq> os_sep) (rev name) = rev name"
      using a by auto
    then have "basename name = name" by (simp only: basename_def rev_rev_ident)
    then show "file_name_without_extension aeneas_gf (dir @ os_sep # name)
          = file_name_without_extension aeneas_gf name"
      using a by (simp add: aeneas_gf_def name_without_extension_def basename_append)
  qed
  ultimately show ?thesis
    by (simp add: aeneas_gf_def name_without_extension_def)
qed

theorem flat_pairing_key_is_base_name_witness:
  "os_sep \<notin> set ''x.txt''
   \<and> file_name_without_extension aeneas_gf (''a'' @ os_sep # ''x.txt'')
       = file_name_without_extension aeneas_gf ''x.txt''
   \<and> file_name_without_extension aeneas_gf ''a/x.txt'' = ''x''
   \<and> file_name_without_extension aeneas_gf ''b/x.mp3'' = ''x''
   \<and> match_files_flat_hierarchy aeneas_gf [''a/x.txt''] [''b/x.mp3'']
       = [(''x'', ''a/x.txt'', ''b/x.mp3'')]
   \<and> match_files_flat_hierarchy aeneas_gf [''a/x.txt''] [''a/x.mp3'']
       = [(''x'', ''a/x.txt'', ''a/x.mp3'')]
   \<and> match_files_flat_hierarchy aeneas_gf [''a/x.txt''] [''a/y.mp3''] = []"
proof -
  have s: "os_sep \<notin> set ''x.txt''" by (simp add: os_sep_def)
  have k: "file_name_without_extension aeneas_gf ''a/x.txt'' = ''x''"
    "file_name_without_extension aeneas_gf ''b/x.mp3'' = ''x''"
    "file_name_without_extension aeneas_gf ''a/x.mp3'' = ''x''"
    "file_name_without_extension aeneas_gf ''a/y.mp3'' = ''y''"
    by code_simp+
  note T = flat_pairing_key_is_base_name
  have 1: "file_name_without_extension aeneas_gf (''a'' @ os_sep # ''x.txt'')
       = file_name_without_extension aeneas_gf ''x.txt''"
    using T [of aeneas_gf _ _ _ "''x.txt''" "''a''"] s by blast
  have 2: "match_files_flat_hierarchy aeneas_gf [''a/x.txt''] [''b/x.mp3'']
       = [(''x'', ''a/x.txt'', ''b/x.mp3'')]"
    using T [of aeneas_gf "''a/x.txt''" "''b/x.mp3''"] k by simp
  have 3: "match_files_flat_hierarchy aeneas_gf [''a/x.txt''] [''a/x.mp3'']
       = [(''x'', ''a/x.txt'', ''a/x.mp3'')]"
    using T [of aeneas_gf "''a/x.txt''" "''a/x.mp3''"] k by simp
  have 4: "match_files_flat_hierarchy aeneas_gf [''a/x.txt''] [''a/y.mp3''] = []"
    using T [of aeneas_gf "''a/x.txt''" "''a/y.mp3''"] k by simp
  show ?thesis using s k 1 2 3 4 by blast
qed

section \<open>Flat pairing: order of the inputs\<close>

lemma map_of_keyed_inj:
  assumes "inj_on (file_name_without_extension gf) (set files)"
  shows "map_of (keyed gf files) k = Some f \<longleftrightarrow> f \<in> set files \<and> file_name_without_extension gf f = k"
proof
  assume "map_of (keyed gf files) k = Some f"
  then have ne: "filter (\<lambda>f. file_name_without_extension gf f = k) files \<noteq> []"
    and f: "f = last (filter (\<lambda>f. file_name_without_extension gf f = k) files)"
    by (auto simp: map_of_keyed split: if_splits)
  from ne have "last (filter (\<lambda>f. file_name_without_extension gf f = k) files)
         \<in> set (filter (\<lambda>f. file_name_without_extension gf f = k) files)"
    by (rule last_in_set)
  with f show "f \<in> set files \<and> file_name_without_extension gf f = k" by simp
next
  assume a: "f \<in> set files \<and> file_name_without_extension gf f = k"
  then have ne: "filter (\<lambda>f. file_name_without_extension gf f = k) files \<noteq> []"
    by (auto simp: filter_empty_conv)
  then have "last (filter (\<lambda>f. file_name_without_extension gf f = k) files)
         \<in> set (filter (\<lambda>f. file_name_without_extension gf f = k) files)"
    by (rule last_in_set)
  then have "last (filter (\<lambda>f. file_name_without_extension gf f = k) files) = f"
    using a assms by (auto dest: inj_onD)
  with ne show "map_of (keyed gf files) k = Some f"
    by (simp add: map_of_keyed)
qed

lemma last_entry_md: "match_files_flat_hierarchy aeneas_gf [''x.txt'', ''x.md''] [''x.mp3''] = [(''x'', ''x.md'', ''x.mp3'')]"
  by code_simp
lemma last_entry_txt: "match_files_flat_hierarchy aeneas_gf [''x.md'', ''x.txt''] [''x.mp3''] = [(''x'', ''x.txt'', ''x.mp3'')]"
  by code_simp

text \<open>
  Two entries of one list with the same key: the later one is kept, so exchanging
  them changes the emitted triple.
\<close>

theorem flat_pairing_order_matters:
  "mset [''x.md'', ''x.txt''] = mset [''x.txt'', ''x.md'']
   \<and> set (match_files_flat_hierarchy aeneas_gf [''x.md'', ''x.txt''] [''x.mp3''])
     \<noteq> set (match_files_flat_hierarchy aeneas_gf [''x.txt'', ''x.md''] [''x.mp3''])"
  by (simp add: last_entry_md last_entry_txt)

text \<open>
  C8 (as amended). When no two different entries of the text list share a key, and
  no two different entries of the audio list do, permuting either list leaves the
  set of emitted triples unchanged.
\<close>

theorem flat_pairing_permutation:
  assumes "inj_on (file_name_without_extension gf) (set text_files)"
    and "inj_on (file_name_without_extension gf) (set audio_files)"
    and "mset text_files' = mset text_files"
    and "mset audio_files' = mset audio_files"
  shows "set (match_files_flat_hierarchy gf text_files' audio_files')
       = set (match_files_flat_hierarchy gf text_files audio_files)"
proof -
  have t: "set text_files' = set text_files" using assms(3) by (rule mset_eq_setD)
  have a: "set audio_files' = set audio_files" using assms(4) by (rule mset_eq_setD)
  show ?thesis
    using assms(1,2)
    by (simp add: set_match_files_flat_hierarchy map_of_keyed_inj t a)
qed

lemma keys_distinct_texts: "inj_on (file_name_without_extension aeneas_gf) (set [''text/a.txt'', ''text/b.txt''])"
  by (simp add: aeneas_gf_def name_without_extension_def basename_def splitext_root_def os_sep_def)

lemma keys_distinct_audios: "inj_on (file_name_without_extension aeneas_gf) (set [''audio/b.mp3'', ''audio/a.mp3''])"
  by (simp add: aeneas_gf_def name_without_extension_def basename_def splitext_root_def os_sep_def)

lemma pairing_example_order1: "match_files_flat_hierarchy aeneas_gf [''text/a.txt'', ''text/b.txt''] [''audio/b.mp3'', ''audio/a.mp3'']
   = [(''a'', ''text/a.txt'', ''audio/a.mp3''), (''b'', ''text/b.txt'', ''audio/b.mp3'')]"
  by code_simp

lemma pairing_example_order2: "match_files_flat_hierarchy aeneas_gf [''text/b.txt'', ''text/a.txt''] [''audio/a.mp3'', ''audio/b.mp3'']
   = [(''b'', ''text/b.txt'', ''audio/b.mp3''), (''a'', ''text/a.txt'', ''audio/a.mp3'')]"
  by code_simp

theorem flat_pairing_permutation_witness:
  "inj_on (file_name_without_extension aeneas_gf) (set [''text/a.txt'', ''text/b.txt''])
   \<and> inj_on (file_name_without_extension aeneas_gf) (set [''audio/b.mp3'', ''audio/a.mp3''])
   \<and> mset [''text/b.txt'', ''text/a.txt''] = mset [''text/a.txt'', ''text/b.txt'']
   \<and> mset [''audio/a.mp3'', ''audio/b.mp3''] = mset [''audio/b.mp3'', ''audio/a.mp3'']
   \<and> set (match_files_flat_hierarchy aeneas_gf [''text/b.txt'', ''text/a.txt'']
              [''audio/a.mp3'', ''audio/b.mp3''])
     = set (match_files_flat_hierarchy aeneas_gf [''text/a.txt'', ''text/b.txt'']
              [''audio/b.mp3'', ''audio/a.mp3''])
   \<and> match_files_flat_hierarchy aeneas_gf [''text/b.txt'', ''text/a.txt'']
              [''audio/a.mp3'', ''audio/b.mp3'']
     = [(''b'', ''text/b.txt'', ''audio/b.mp3''), (''a'', ''text/a.txt'', ''audio/a.mp3'')]"
proof -
  have m1: "mset [''text/b.txt'', ''text/a.txt''] = mset [''text/a.txt'', ''text/b.txt'']"
    by (simp add: add_mset_commute)
  have m2: "mset [''audio/a.mp3'', ''audio/b.mp3''] = mset [''audio/b.mp3'', ''audio/a.mp3'']"
    by (simp add: add_mset_commute)
  from flat_pairing_permutation [OF keys_distinct_texts keys_distinct_audios m1 m2] keys_distinct_texts keys_distinct_audios m1 m2 pairing_example_order2
  show ?thesis by blast
qed

section \<open>Paged hierarchy: one decision for each matched directory\<close>

lemma paged_directory_log:
  "paged_directory gf gc lib entries root trel trx arel arx cs sroot kind (job, log) d =
     (case paged_directory gf gc lib entries root trel trx arel arx cs sroot kind (job, []) d of
        Inl e \<Rightarrow> Inl e
      | Inr (j, l) \<Rightarrow> Inr (j, log @ l))"
  by (simp add: paged_directory_def Let_def bind_e_def split: sum.splits)

lemma paged_loop_log:
  "map_sum id fst
     (fold_e (paged_directory gf gc lib entries root trel trx arel arx cs sroot kind) (job, log) dirs)
   = map_sum id fst
     (fold_e (paged_directory gf gc lib entries root trel trx arel arx cs sroot kind) (job, log') dirs)"
proof (induction dirs arbitrary: job log log')
  case Nil
  then show ?case by simp
next
  case (Cons d dirs)
  show ?case
  proof (cases "paged_directory gf gc lib entries root trel trx arel arx cs sroot kind (job, []) d")
    case (Inl e)
    then show ?thesis
      by (simp add: paged_directory_log [of _ _ _ _ _ _ _ _ _ _ _ _ _ log]
          paged_directory_log [of _ _ _ _ _ _ _ _ _ _ _ _ _ log'])
  next
    case (Inr s)
    obtain j l where s: "s = (j, l)" by (cases s)
    show ?thesis
      using Cons.IH [of j "log @ l" "log' @ l"] Inr s
      by (simp add: paged_directory_log [of _ _ _ _ _ _ _ _ _ _ _ _ _ log]
          paged_directory_log [of _ _ _ _ _ _ _ _ _ _ _ _ _ log'])
  qed
qed

lemma paged_directory_skip:
  assumes "\<not> (length (find_files gf entries (norm_join gf root d) (Some trel) trx) = 1
            \<and> length (find_files gf entries (norm_join gf root d) (Some arel) arx) = 1)"
  shows "\<exists>msg. paged_directory gf gc lib entries root trel trx arel arx cs sroot kind (job, log) d
           = Inr (job, log @ [msg])"
  using assms by (auto simp add: paged_directory_def Let_def)

lemma paged_loop_skips:
  "map_sum id fst
     (fold_e (paged_directory gf gc lib entries root trel trx arel arx cs sroot kind) (job, log) dirs)
   = map_sum id fst
     (fold_e (paged_directory gf gc lib entries root trel trx arel arx cs sroot kind) (job, log)
        (filter (\<lambda>d. length (find_files gf entries (norm_join gf root d) (Some trel) trx) = 1
                    \<and> length (find_files gf entries (norm_join gf root d) (Some arel) arx) = 1)
           dirs))"
proof (induction dirs arbitrary: job log)
  case Nil
  then show ?case by simp
next
  case (Cons d dirs)
  let ?body = "paged_directory gf gc lib entries root trel trx arel arx cs sroot kind"
  let ?one = "\<lambda>d. length (find_files gf entries (norm_join gf root d) (Some trel) trx) = 1
                    \<and> length (find_files gf entries (norm_join gf root d) (Some arel) arx) = 1"
  show ?case
  proof (cases "?one d")
    case True
    show ?thesis
    proof (cases "?body (job, log) d")
      case (Inl e)
      then show ?thesis using True by simp
    next
      case (Inr s)
      obtain j l where s: "s = (j, l)" by (cases s)
      show ?thesis using True Inr s Cons.IH [of j l] by simp
    qed
  next
    case False
    then obtain msg where m: "?body (job, log) d = Inr (job, log @ [msg])"
      using paged_directory_skip [of gf entries root d trel trx arel arx gc lib cs sroot kind job log]
      by blast
    have "map_sum id fst (fold_e ?body (job, log) (d # dirs))
        = map_sum id fst (fold_e ?body (job, log @ [msg]) dirs)"
      using m by simp
    also have "\<dots> = map_sum id fst (fold_e ?body (job, log) dirs)"
      by (rule paged_loop_log)
    also have "\<dots> = map_sum id fst (fold_e ?body (job, log) (filter ?one dirs))"
      by (rule Cons.IH)
    finally have c: "map_sum id fst (fold_e ?body (job, log) (d # dirs))
        = map_sum id fst (fold_e ?body (job, log) (filter ?one dirs))" .
    have f: "filter ?one (d # dirs) = filter ?one dirs"
      using False by auto
    show ?thesis unfolding f by (rule c)
  qed
qed

lemma paged_loop_all_skipped:
  assumes "\<forall>d \<in> set dirs.
             \<not> (length (find_files gf entries (norm_join gf root d) (Some trel) trx) = 1
                \<and> length (find_files gf entries (norm_join gf root d) (Some arel) arx) = 1)"
  shows "\<exists>log'. fold_e (paged_directory gf gc lib entries root trel trx arel arx cs sroot kind)
                  (job, log) dirs = Inr (job, log')
               \<and> length log' = length log + length dirs"
  using assms
proof (induction dirs arbitrary: log)
  case Nil
  then show ?case by simp
next
  case (Cons d dirs)
  let ?body = "paged_directory gf gc lib entries root trel trx arel arx cs sroot kind"
  obtain msg where m: "?body (job, log) d = Inr (job, log @ [msg])"
    using paged_directory_skip [of gf entries root d trel trx arel arx gc lib cs sroot kind job log]
      Cons.prems by auto
  obtain log' where "fold_e ?body (job, log @ [msg]) dirs = Inr (job, log')"
      "length log' = length (log @ [msg]) + length dirs"
    using Cons.IH [of "log @ [msg]"] Cons.prems by auto
  then show ?case using m by simp
qed

text \<open>
  A directory with neither more than one text file nor more than one audio file,
  and not exactly one of each, is not passed over in silence: the last branch logs
  its own message, as directories 2 and 3 of the sample container show.
\<close>

theorem paged_skip_is_logged:
  "summary (analyze aeneas_gf aeneas_gc aeneas_lib paged_container)
   = Inr (Some [(''1'', ''en'', ''r/1/page.txt'', ''r/1/page.mp3'', Some ''out/1/1.smil'')],
          [''Exactly one text file and one audio file in '' @ quoted ''1'',
           ''No text nor audio file in '' @ quoted ''2'',
           ''No text nor audio file in '' @ quoted ''3'',
           ''More than one text file in '' @ quoted ''4'',
           ''More than one audio file in '' @ quoted ''5''])"
  by code_simp

text \<open>
  C4 (as amended). For a matched directory with exactly one text entry and one
  audio entry the loop body is the construction of its Task (whose failure ends
  the call), and the Task is appended to the Job. With more than one text entry,
  else with more than one audio entry, the Job is unchanged and the message names
  the ambiguity; in every remaining case the Job is unchanged too and the message
  is \<open>No text nor audio file\<close>. A skipped directory neither adds a Task nor
  fails the call: the Job (or the exception) of the whole loop is that of the loop
  over the directories with exactly one text and one audio entry, and a loop over
  skipped directories only returns the Job as it was.
\<close>

theorem paged_directory_decision:
  fixes gf gc lib entries root trel trx arel arx cs sroot kind
  defines "body \<equiv> paged_directory gf gc lib entries root trel trx arel arx cs sroot kind"
    and "texts \<equiv> \<lambda>d. find_files gf entries (norm_join gf root d) (Some trel) trx"
    and "audios \<equiv> \<lambda>d. find_files gf entries (norm_join gf root d) (Some arel) arx"
  shows
  "(length (texts d) = 1 \<and> length (audios d) = 1 \<longrightarrow>
      body (job, log) d =
        bind_e (create_task gf gc lib (d, hd (texts d), hd (audios d)) cs sroot kind)
          (\<lambda>task. Inr (add_task job task,
             log @ [''Exactly one text file and one audio file in '' @ quoted d])))
   \<and> (length (texts d) > 1 \<longrightarrow>
      body (job, log) d = Inr (job, log @ [''More than one text file in '' @ quoted d]))
   \<and> (length (texts d) \<le> 1 \<and> length (audios d) > 1 \<longrightarrow>
      body (job, log) d = Inr (job, log @ [''More than one audio file in '' @ quoted d]))
   \<and> (length (texts d) \<le> 1 \<and> length (audios d) \<le> 1
       \<and> \<not> (length (texts d) = 1 \<and> length (audios d) = 1) \<longrightarrow>
      body (job, log) d = Inr (job, log @ [''No text nor audio file in '' @ quoted d]))
   \<and> map_sum id fst (fold_e body (job, log) dirs)
       = map_sum id fst (fold_e body (job, log)
           (filter (\<lambda>d. length (texts d) = 1 \<and> length (audios d) = 1) dirs))
   \<and> ((\<forall>d \<in> set dirs. \<not> (length (texts d) = 1 \<and> length (audios d) = 1)) \<longrightarrow>
        (\<exists>log'. fold_e body (job, log) dirs = Inr (job, log')
                \<and> length log' = length log + length dirs))"
proof -
  have 1: "length (texts d) = 1 \<and> length (audios d) = 1 \<longrightarrow>
      body (job, log) d =
        bind_e (create_task gf gc lib (d, hd (texts d), hd (audios d)) cs sroot kind)
          (\<lambda>task. Inr (add_task job task,
             log @ [''Exactly one text file and one audio file in '' @ quoted d]))"
    by (simp add: body_def texts_def audios_def paged_directory_def Let_def)
  have 2: "length (texts d) > 1 \<longrightarrow>
      body (job, log) d = Inr (job, log @ [''More than one text file in '' @ quoted d])"
    by (simp add: body_def texts_def audios_def paged_directory_def Let_def)
  have 3: "length (texts d) \<le> 1 \<and> length (audios d) > 1 \<longrightarrow>
      body (job, log) d = Inr (job, log @ [''More than one audio file in '' @ quoted d])"
    by (simp add: body_def texts_def audios_def paged_directory_def Let_def)
  have 4: "length (texts d) \<le> 1 \<and> length (audios d) \<le> 1
       \<and> \<not> (length (texts d) = 1 \<and> length (audios d) = 1) \<longrightarrow>
      body (job, log) d = Inr (job, log @ [''No text nor audio file in '' @ quoted d])"
    by (auto simp add: body_def texts_def audios_def paged_directory_def Let_def)
  have 5: "map_sum id fst (fold_e body (job, log) dirs)
       = map_sum id fst (fold_e body (job, log)
           (filter (\<lambda>d. length (texts d) = 1 \<and> length (audios d) = 1) dirs))"
    unfolding body_def texts_def audios_def by (rule paged_loop_skips)
  have 6: "(\<forall>d \<in> set dirs. \<not> (length (texts d) = 1 \<and> length (audios d) = 1)) \<longrightarrow>
        (\<exists>log'. fold_e body (job, log) dirs = Inr (job, log')
                \<and> length log' = length log + length dirs)"
    unfolding body_def texts_def audios_def
    using paged_loop_all_skipped [of dirs gf entries root trel trx arel arx gc lib cs sroot kind job log]
    by blast
  from 1 2 3 4 5 6 show ?thesis by blast
qed

lemma paged_counts:
  "length (find_files aeneas_gf paged_entries (norm_join aeneas_gf ''r'' ''1'') (Some ''.'') txt_pattern) = 1"
  "length (find_files aeneas_gf paged_entries (norm_join aeneas_gf ''r'' ''1'') (Some ''.'') mp3_pattern) = 1"
  "length (find_files aeneas_gf paged_entries (norm_join aeneas_gf ''r'' ''2'') (Some ''.'') txt_pattern) = 1"
  "length (find_files aeneas_gf paged_entries (norm_join aeneas_gf ''r'' ''2'') (Some ''.'') mp3_pattern) = 0"
  "length (find_files aeneas_gf paged_entries (norm_join aeneas_gf ''r'' ''3'') (Some ''.'') txt_pattern) = 0"
  "length (find_files aeneas_gf paged_entries (norm_join aeneas_gf ''r'' ''3'') (Some ''.'') mp3_pattern) = 0"
  "length (find_files aeneas_gf paged_entries (norm_join aeneas_gf ''r'' ''4'') (Some ''.'') txt_pattern) = 2"
  "length (find_files aeneas_gf paged_entries (norm_join aeneas_gf ''r'' ''4'') (Some ''.'') mp3_pattern) = 1"
  "length (find_files aeneas_gf paged_entries (norm_join aeneas_gf ''r'' ''5'') (Some ''.'') txt_pattern) = 1"
  "length (find_files aeneas_gf paged_entries (norm_join aeneas_gf ''r'' ''5'') (Some ''.'') mp3_pattern) = 2"
  by code_simp+

theorem paged_directory_decision_witness:
  "length (find_files aeneas_gf paged_entries (norm_join aeneas_gf ''r'' ''1'') (Some ''.'') txt_pattern) = 1
   \<and> length (find_files aeneas_gf paged_entries (norm_join aeneas_gf ''r'' ''1'') (Some ''.'') mp3_pattern) = 1
   \<and> paged_directory aeneas_gf aeneas_gc aeneas_lib paged_entries ''r'' ''.'' txt_pattern ''.'' mp3_pattern
        ''job_language=en'' ''out'' ''paged'' (new_Job ''job_language=en'', []) ''1''
      = bind_e (create_task aeneas_gf aeneas_gc aeneas_lib
                  (''1'',
                   hd (find_files aeneas_gf paged_entries (norm_join aeneas_gf ''r'' ''1'') (Some ''.'') txt_pattern),
                   hd (find_files aeneas_gf paged_entries (norm_join aeneas_gf ''r'' ''1'') (Some ''.'') mp3_pattern))
                  ''job_language=en'' ''out'' ''paged'')
          (\<lambda>task. Inr (add_task (new_Job ''job_language=en'') task,
             [] @ [''Exactly one text file and one audio file in '' @ quoted ''1'']))
   \<and> length (find_files aeneas_gf paged_entries (norm_join aeneas_gf ''r'' ''4'') (Some ''.'') txt_pattern) > 1
   \<and> paged_directory aeneas_gf aeneas_gc aeneas_lib paged_entries ''r'' ''.'' txt_pattern ''.'' mp3_pattern
        ''job_language=en'' ''out'' ''paged'' (new_Job ''job_language=en'', []) ''4''
      = Inr (new_Job ''job_language=en'', [] @ [''More than one text file in '' @ quoted ''4''])
   \<and> length (find_files aeneas_gf paged_entries (norm_join aeneas_gf ''r'' ''5'') (Some ''.'') txt_pattern) \<le> 1
   \<and> length (find_files aeneas_gf paged_entries (norm_join aeneas_gf ''r'' ''5'') (Some ''.'') mp3_pattern) > 1
   \<and> paged_directory aeneas_gf aeneas_gc aeneas_lib paged_entries ''r'' ''.'' txt_pattern ''.'' mp3_pattern
        ''job_language=en'' ''out'' ''paged'' (new_Job ''job_language=en'', []) ''5''
      = Inr (new_Job ''job_language=en'', [] @ [''More than one audio file in '' @ quoted ''5''])
   \<and> length (find_files aeneas_gf paged_entries (norm_join aeneas_gf ''r'' ''2'') (Some ''.'') txt_pattern) \<le> 1
   \<and> length (find_files aeneas_gf paged_entries (norm_join aeneas_gf ''r'' ''2'') (Some ''.'') mp3_pattern) \<le> 1
   \<and> paged_directory aeneas_gf aeneas_gc aeneas_lib paged_entries ''r'' ''.'' txt_pattern ''.'' mp3_pattern
        ''job_language=en'' ''out'' ''paged'' (new_Job ''job_language=en'', []) ''2''
      = Inr (new_Job ''job_language=en'', [] @ [''No text nor audio file in '' @ quoted ''2''])
   \<and> \<not> (length (find_files aeneas_gf paged_entries (norm_join aeneas_gf ''r'' ''2'') (Some ''.'') txt_pattern) = 1
          \<and> length (find_files aeneas_gf paged_entries (norm_join aeneas_gf ''r'' ''2'') (Some ''.'') mp3_pattern) = 1)
   \<and> \<not> (length (find_files aeneas_gf paged_entries (norm_join aeneas_gf ''r'' ''3'') (Some ''.'') txt_pattern) = 1
          \<and> length (find_files aeneas_gf paged_entries (norm_join aeneas_gf ''r'' ''3'') (Some ''.'') mp3_pattern) = 1)
   \<and> (\<exists>log'. fold_e (paged_directory aeneas_gf aeneas_gc aeneas_lib paged_entries ''r'' ''.''
                       txt_pattern ''.'' mp3_pattern ''job_language=en'' ''out'' ''paged'')
                (new_Job ''job_language=en'', []) [''2'', ''3'']
              = Inr (new_Job ''job_language=en'', log')
            \<and> length log' = length ([] :: string list) + length [''2'', ''3''])"
proof -
  note T = paged_directory_decision [where gf = aeneas_gf and gc = aeneas_gc and lib = aeneas_lib
      and entries = paged_entries and root = "''r''" and trel = "''.''" and trx = txt_pattern
      and arel = "''.''" and arx = mp3_pattern and cs = "''job_language=en''" and sroot = "''out''"
      and kind = "''paged''" and job = "new_Job ''job_language=en''" and log = "[]"
      and dirs = "[''2'', ''3'']"]
  have s: "\<forall>d \<in> set [''2'', ''3''].
         \<not> (length (find_files aeneas_gf paged_entries (norm_join aeneas_gf ''r'' d) (Some ''.'') txt_pattern) = 1
            \<and> length (find_files aeneas_gf paged_entries (norm_join aeneas_gf ''r'' d) (Some ''.'') mp3_pattern) = 1)"
    using paged_counts by simp
  show ?thesis
    using T [of "''1''"] T [of "''4''"] T [of "''5''"] T [of "''2''"] s
    by (simp add: paged_counts)
qed

section \<open>Language of a Task: a missing language ends the analysis\<close>

text \<open>
  The exception of a Task construction is caught nowhere: it ends the loop that
  builds the Tasks, the analysis of the configuration, and \<open>analyze\<close>.
\<close>

lemma fold_e_member_fails:
  "x \<in> set xs \<Longrightarrow> (\<And>s. \<exists>e. f s x = Inl e) \<Longrightarrow> \<exists>e. fold_e f s xs = Inl e"
proof (induction xs arbitrary: s)
  case Nil
  then show ?case by simp
next
  case (Cons a xs)
  show ?case
  proof (cases "f s a")
    case (Inl e)
    then show ?thesis by simp
  next
    case (Inr s')
    then have "a \<noteq> x" using Cons.prems(2) [of s] by auto
    then have "x \<in> set xs" using Cons.prems(1) by simp
    then obtain e where "fold_e f s' xs = Inl e" using Cons.IH Cons.prems(2) by blast
    then show ?thesis using Inr by simp
  qed
qed

lemma paged_loop_no_language:
  assumes tl: "config_string_to_dict gf cs (PPN_TASK_LANGUAGE gc) = None"
    and jl: "config_string_to_dict gf cs (PPN_JOB_LANGUAGE gc) = None"
    and d: "d \<in> set dirs"
    and one: "length (find_files gf entries (norm_join gf troot d) (Some trel) trx) = 1"
      "length (find_files gf entries (norm_join gf troot d) (Some arel) arx) = 1"
  shows "fold_e (paged_directory gf gc lib entries troot trel trx arel arx cs sroot kind)
           (job, log) dirs = Inl (KeyError (PPN_JOB_LANGUAGE gc))"
proof -
  let ?body = "paged_directory gf gc lib entries troot trel trx arel arx cs sroot kind"
  let ?one = "\<lambda>d. length (find_files gf entries (norm_join gf troot d) (Some trel) trx) = 1
                    \<and> length (find_files gf entries (norm_join gf troot d) (Some arel) arx) = 1"
  have "filter ?one dirs \<noteq> []" using d one by (auto simp: filter_empty_conv)
  then obtain d' rest where f: "filter ?one dirs = d' # rest"
    by (cases "filter ?one dirs") auto
  then have "d' \<in> set (filter ?one dirs)" by simp
  then have "?one d'" by simp
  then have "?body (job, log) d' = Inl (KeyError (PPN_JOB_LANGUAGE gc))"
    using create_task_no_language [OF tl jl]
    by (simp add: paged_directory_def Let_def)
  then have "fold_e ?body (job, log) (filter ?one dirs) = Inl (KeyError (PPN_JOB_LANGUAGE gc))"
    using f by simp
  then have "map_sum id fst (fold_e ?body (job, log) dirs) = Inl (KeyError (PPN_JOB_LANGUAGE gc))"
    using paged_loop_skips [of gf gc lib entries troot trel trx arel arx cs sroot kind job log dirs]
    by simp
  then show ?thesis
    by (cases "fold_e ?body (job, log) dirs") auto
qed

lemma analyze_xml_config_no_language:
  assumes "tp \<in> set (config_xml_to_dict_tasks gf
                       (case arg of None \<Rightarrow> read_entry container (entry_config_xml container)
                        | Some cc \<Rightarrow> cc))"
    and "config_string_to_dict gf (config_dict_to_string gf tp) (PPN_TASK_LANGUAGE gc) = None"
    and "config_string_to_dict gf (config_dict_to_string gf tp) (PPN_JOB_LANGUAGE gc) = None"
  shows "\<exists>e. analyze_xml_config gf gc lib container arg = Inl e"
proof -
  define contents where "contents =
    (case arg of None \<Rightarrow> read_entry container (entry_config_xml container) | Some cc \<Rightarrow> cc)"
  define dir where "dir = (case arg of None \<Rightarrow> dirname (entry_config_xml container)
                            | Some cc \<Rightarrow> [])"
  have unfold: "analyze_xml_config gf gc lib container arg =
      bind_e (getitem (config_xml_to_dict_job gf contents) (PPN_JOB_OS_HIERARCHY_PREFIX gc)) (\<lambda>os_prefix.
      bind_e (getitem (config_xml_to_dict_job gf contents) (PPN_JOB_OS_HIERARCHY_TYPE gc)) (\<lambda>kind.
      fold_e (\<lambda>job task_parameters.
                bind_e (getitem task_parameters (PPN_TASK_IS_TEXT_FILE_XML gc)) (\<lambda>text_file.
                bind_e (getitem task_parameters (PPN_TASK_IS_AUDIO_FILE_XML gc)) (\<lambda>audio_file.
                bind_e (create_task gf gc lib
                          (case task_parameters (PPN_TASK_CUSTOM_ID gc) of Some v \<Rightarrow> v | None \<Rightarrow> [],
                           norm_join gf dir text_file, norm_join gf dir audio_file)
                          (config_dict_to_string gf task_parameters) (norm_join gf dir os_prefix) kind)
                  (\<lambda>task. Inr (add_task job task)))))
        (new_Job (config_dict_to_string gf (config_xml_to_dict_job gf contents)))
        (config_xml_to_dict_tasks gf contents)))"
    by (cases arg) (simp_all add: analyze_xml_config_def Let_def contents_def dir_def)
  show ?thesis
  proof (cases "getitem (config_xml_to_dict_job gf contents) (PPN_JOB_OS_HIERARCHY_PREFIX gc)")
    case (Inl e)
    then show ?thesis by (simp add: unfold)
  next
    case p: (Inr os_prefix)
    show ?thesis
    proof (cases "getitem (config_xml_to_dict_job gf contents) (PPN_JOB_OS_HIERARCHY_TYPE gc)")
      case (Inl e)
      then show ?thesis using p by (simp add: unfold)
    next
      case k: (Inr kind)
      let ?body = "\<lambda>job task_parameters.
                bind_e (getitem task_parameters (PPN_TASK_IS_TEXT_FILE_XML gc)) (\<lambda>text_file.
                bind_e (getitem task_parameters (PPN_TASK_IS_AUDIO_FILE_XML gc)) (\<lambda>audio_file.
                bind_e (create_task gf gc lib
                          (case task_parameters (PPN_TASK_CUSTOM_ID gc) of Some v \<Rightarrow> v | None \<Rightarrow> [],
                           norm_join gf dir text_file, norm_join gf dir audio_file)
                          (config_dict_to_string gf task_parameters) (norm_join gf dir os_prefix) kind)
                  (\<lambda>task. Inr (add_task job task))))"
      have "\<exists>e. ?body s tp = Inl e" for s
        using create_task_no_language [OF assms(2,3)]
        by (cases "getitem tp (PPN_TASK_IS_TEXT_FILE_XML gc)";
            cases "getitem tp (PPN_TASK_IS_AUDIO_FILE_XML gc)") simp_all
      moreover have "tp \<in> set (config_xml_to_dict_tasks gf contents)"
        using assms(1) by (simp add: contents_def)
      ultimately have "\<exists>e. fold_e ?body
                 (new_Job (config_dict_to_string gf (config_xml_to_dict_job gf contents)))
                 (config_xml_to_dict_tasks gf contents) = Inl e"
        by (intro fold_e_member_fails) auto
      then show ?thesis using p k by (simp add: unfold)
    qed
  qed
qed

lemma analyze_txt_config_flat_no_language:
  fixes gf gc lib container
  defines "cs \<equiv> config_txt_to_string gf (read_entry container (entry_config_txt container))"
    and "dir \<equiv> dirname (entry_config_txt container)"
  assumes tl: "config_string_to_dict gf cs (PPN_TASK_LANGUAGE gc) = None"
    and jl: "config_string_to_dict gf cs (PPN_JOB_LANGUAGE gc) = None"
    and p: "config_string_to_dict gf cs (PPN_JOB_IS_HIERARCHY_PREFIX gc) = Some isp"
      "config_string_to_dict gf cs (PPN_JOB_OS_HIERARCHY_PREFIX gc) = Some osp"
      "config_string_to_dict gf cs (PPN_JOB_OS_HIERARCHY_TYPE gc) = Some kind"
      "config_string_to_dict gf cs (PPN_JOB_IS_TEXT_FILE_RELATIVE_PATH gc) = Some trel"
      "config_string_to_dict gf cs (PPN_JOB_IS_TEXT_FILE_NAME_REGEX gc) = Some trs"
      "re_compile lib trs = Inr trx"
      "config_string_to_dict gf cs (PPN_JOB_IS_AUDIO_FILE_RELATIVE_PATH gc) = Some arel"
      "config_string_to_dict gf cs (PPN_JOB_IS_AUDIO_FILE_NAME_REGEX gc) = Some ars"
      "re_compile lib ars = Inr arx"
    and flat: "config_string_to_dict gf cs (PPN_JOB_IS_HIERARCHY_TYPE gc) = Some HierarchyType_FLAT"
    and units: "match_files_flat_hierarchy gf
                  (find_files gf (container_entries container) (norm_join gf dir isp) (Some trel) trx)
                  (find_files gf (container_entries container) (norm_join gf dir isp) (Some arel) arx)
                \<noteq> []"
  shows "analyze_txt_config gf gc lib container None = Inl (KeyError (PPN_JOB_LANGUAGE gc))"
proof -
  have F: "fold_e (\<lambda>job task_info.
                     bind_e (create_task gf gc lib task_info cs (norm_join gf dir osp) kind)
                       (\<lambda>task. Inr (add_task job task)))
             (new_Job cs)
             (match_files_flat_hierarchy gf
                  (find_files gf (container_entries container) (norm_join gf dir isp) (Some trel) trx)
                  (find_files gf (container_entries container) (norm_join gf dir isp) (Some arel) arx))
           = Inl (KeyError (PPN_JOB_LANGUAGE gc))"
    using units create_task_no_language [OF tl jl]
    by (intro fold_e_first_error) auto
  show ?thesis
    using p flat F
    by (simp add: analyze_txt_config_def Let_def getitem_def cs_def [symmetric] dir_def [symmetric])
qed

lemma analyze_txt_config_paged_no_language:
  fixes gf gc lib container
  defines "cs \<equiv> config_txt_to_string gf (read_entry container (entry_config_txt container))"
    and "dir \<equiv> dirname (entry_config_txt container)"
  assumes tl: "config_string_to_dict gf cs (PPN_TASK_LANGUAGE gc) = None"
    and jl: "config_string_to_dict gf cs (PPN_JOB_LANGUAGE gc) = None"
    and p: "config_string_to_dict gf cs (PPN_JOB_IS_HIERARCHY_PREFIX gc) = Some isp"
      "config_string_to_dict gf cs (PPN_JOB_OS_HIERARCHY_PREFIX gc) = Some osp"
      "config_string_to_dict gf cs (PPN_JOB_OS_HIERARCHY_TYPE gc) = Some kind"
      "config_string_to_dict gf cs (PPN_JOB_IS_TEXT_FILE_RELATIVE_PATH gc) = Some trel"
      "config_string_to_dict gf cs (PPN_JOB_IS_TEXT_FILE_NAME_REGEX gc) = Some trs"
      "re_compile lib trs = Inr trx"
      "config_string_to_dict gf cs (PPN_JOB_IS_AUDIO_FILE_RELATIVE_PATH gc) = Some arel"
      "config_string_to_dict gf cs (PPN_JOB_IS_AUDIO_FILE_NAME_REGEX gc) = Some ars"
      "re_compile lib ars = Inr arx"
    and paged: "config_string_to_dict gf cs (PPN_JOB_IS_HIERARCHY_TYPE gc) = Some HierarchyType_PAGED"
      "config_string_to_dict gf cs (PPN_JOB_IS_TASK_DIRECTORY_NAME_REGEX gc) = Some drs"
      "match_directories lib (container_entries container) (norm_join gf dir isp) drs = Inr dirs"
    and d: "d \<in> set dirs"
      "length (find_files gf (container_entries container) (norm_join gf (norm_join gf dir isp) d)
                 (Some trel) trx) = 1"
      "length (find_files gf (container_entries container) (norm_join gf (norm_join gf dir isp) d)
                 (Some arel) arx) = 1"
  shows "analyze_txt_config gf gc lib container None = Inl (KeyError (PPN_JOB_LANGUAGE gc))"
proof -
  have G: "fold_e (paged_directory gf gc lib (container_entries container) (norm_join gf dir isp)
                     trel trx arel arx cs (norm_join gf dir osp) kind)
             (new_Job cs, []) dirs
           = Inl (KeyError (PPN_JOB_LANGUAGE gc))"
    using tl jl d by (rule paged_loop_no_language)
  have ne: "HierarchyType_PAGED \<noteq> HierarchyType_FLAT"
    by (simp add: HierarchyType_PAGED_def HierarchyType_FLAT_def)
  show ?thesis
    using p paged G ne
    by (simp add: analyze_txt_config_def Let_def getitem_def cs_def [symmetric] dir_def [symmetric])
qed

text \<open>
  C5. The language of a Task is the value of the task language key when the
  configuration has it, else the value of the job language key. When both are
  missing, Task construction raises (the \<open>KeyError\<close> of the job language key),
  and the loop that builds the Tasks ends with that exception instead of a Job that
  lacks the Task. So does the whole call: \<open>analyze\<close> raises for an XML
  configuration with a task whose configuration has neither key, and returns that
  \<open>KeyError\<close> for a TXT configuration with neither key as soon as a Task is to
  be built, that is when flat pairing emits a triple, or when a matched directory
  of a paged hierarchy has exactly one text and one audio entry.
\<close>

theorem create_task_language:
  fixes gf gc lib container
  defines "cs \<equiv> config_txt_to_string gf (read_entry container (entry_config_txt container))"
    and "dir \<equiv> dirname (entry_config_txt container)"
    and "xml \<equiv> read_entry container (entry_config_xml container)"
  shows
  "(config_string_to_dict gf config_string (PPN_TASK_LANGUAGE gc) = Some l \<longrightarrow>
      (\<exists>t. create_task gf gc lib info config_string root kind = Inr t
            \<and> language (configuration t) = l))
   \<and> (config_string_to_dict gf config_string (PPN_TASK_LANGUAGE gc) = None
       \<and> config_string_to_dict gf config_string (PPN_JOB_LANGUAGE gc) = Some l \<longrightarrow>
      (\<exists>t. create_task gf gc lib info config_string root kind = Inr t
            \<and> language (configuration t) = l))
   \<and> (config_string_to_dict gf config_string (PPN_TASK_LANGUAGE gc) = None
       \<and> config_string_to_dict gf config_string (PPN_JOB_LANGUAGE gc) = None \<longrightarrow>
      create_task gf gc lib info config_string root kind = Inl (KeyError (PPN_JOB_LANGUAGE gc))
      \<and> (units \<noteq> [] \<longrightarrow>
           fold_e (\<lambda>job task_info.
                     bind_e (create_task gf gc lib task_info config_string root kind)
                       (\<lambda>task. Inr (add_task job task))) job units
           = Inl (KeyError (PPN_JOB_LANGUAGE gc))))
   \<and> (has_config_xml container
       \<and> tp \<in> set (config_xml_to_dict_tasks gf xml)
       \<and> config_string_to_dict gf (config_dict_to_string gf tp) (PPN_TASK_LANGUAGE gc) = None
       \<and> config_string_to_dict gf (config_dict_to_string gf tp) (PPN_JOB_LANGUAGE gc) = None \<longrightarrow>
      (\<exists>e. analyze gf gc lib container = Inl e))
   \<and> (\<not> has_config_xml container \<and> has_config_txt container
       \<and> config_string_to_dict gf cs (PPN_TASK_LANGUAGE gc) = None
       \<and> config_string_to_dict gf cs (PPN_JOB_LANGUAGE gc) = None
       \<and> config_string_to_dict gf cs (PPN_JOB_IS_HIERARCHY_PREFIX gc) = Some isp
       \<and> config_string_to_dict gf cs (PPN_JOB_OS_HIERARCHY_PREFIX gc) = Some osp
       \<and> config_string_to_dict gf cs (PPN_JOB_OS_HIERARCHY_TYPE gc) = Some os_kind
       \<and> config_string_to_dict gf cs (PPN_JOB_IS_TEXT_FILE_RELATIVE_PATH gc) = Some trel
       \<and> config_string_to_dict gf cs (PPN_JOB_IS_TEXT_FILE_NAME_REGEX gc) = Some trs
       \<and> re_compile lib trs = Inr trx
       \<and> config_string_to_dict gf cs (PPN_JOB_IS_AUDIO_FILE_RELATIVE_PATH gc) = Some arel
       \<and> config_string_to_dict gf cs (PPN_JOB_IS_AUDIO_FILE_NAME_REGEX gc) = Some ars
       \<and> re_compile lib ars = Inr arx \<longrightarrow>
      (config_string_to_dict gf cs (PPN_JOB_IS_HIERARCHY_TYPE gc) = Some HierarchyType_FLAT
       \<and> match_files_flat_hierarchy gf
            (find_files gf (container_entries container) (norm_join gf dir isp) (Some trel) trx)
            (find_files gf (container_entries container) (norm_join gf dir isp) (Some arel) arx)
           \<noteq> [] \<longrightarrow>
         analyze gf gc lib container = Inl (KeyError (PPN_JOB_LANGUAGE gc)))
      \<and> (config_string_to_dict gf cs (PPN_JOB_IS_HIERARCHY_TYPE gc) = Some HierarchyType_PAGED
         \<and> config_string_to_dict gf cs (PPN_JOB_IS_TASK_DIRECTORY_NAME_REGEX gc) = Some drs
         \<and> match_directories lib (container_entries container) (norm_join gf dir isp) drs = Inr dirs
         \<and> d \<in> set dirs
         \<and> length (find_files gf (container_entries container)
                      (norm_join gf (norm_join gf dir isp) d) (Some trel) trx) = 1
         \<and> length (find_files gf (container_entries container)
                      (norm_join gf (norm_join gf dir isp) d) (Some arel) arx) = 1 \<longrightarrow>
         analyze gf gc lib container = Inl (KeyError (PPN_JOB_LANGUAGE gc))))"
proof -
  have A: "config_string_to_dict gf config_string (PPN_TASK_LANGUAGE gc) = Some l \<longrightarrow>
      (\<exists>t. create_task gf gc lib info config_string root kind = Inr t
            \<and> language (configuration t) = l)"
    using create_task_from_task_key [of gf config_string gc l lib info root kind] by blast
  have B: "config_string_to_dict gf config_string (PPN_TASK_LANGUAGE gc) = None
       \<and> config_string_to_dict gf config_string (PPN_JOB_LANGUAGE gc) = Some l \<longrightarrow>
      (\<exists>t. create_task gf gc lib info config_string root kind = Inr t
            \<and> language (configuration t) = l)"
    using create_task_from_job_key [of gf config_string gc l lib info root kind] by blast
  have C: "config_string_to_dict gf config_string (PPN_TASK_LANGUAGE gc) = None
       \<and> config_string_to_dict gf config_string (PPN_JOB_LANGUAGE gc) = None \<longrightarrow>
      create_task gf gc lib info config_string root kind = Inl (KeyError (PPN_JOB_LANGUAGE gc))
      \<and> (units \<noteq> [] \<longrightarrow>
           fold_e (\<lambda>job task_info.
                     bind_e (create_task gf gc lib task_info config_string root kind)
                       (\<lambda>task. Inr (add_task job task))) job units
           = Inl (KeyError (PPN_JOB_LANGUAGE gc)))"
    using create_task_no_language [of gf config_string gc lib _ root kind]
    by (auto intro!: fold_e_first_error)
  have X: "has_config_xml container
       \<and> tp \<in> set (config_xml_to_dict_tasks gf xml)
       \<and> config_string_to_dict gf (config_dict_to_string gf tp) (PPN_TASK_LANGUAGE gc) = None
       \<and> config_string_to_dict gf (config_dict_to_string gf tp) (PPN_JOB_LANGUAGE gc) = None \<longrightarrow>
      (\<exists>e. analyze gf gc lib container = Inl e)"
  proof
    assume h: "has_config_xml container
       \<and> tp \<in> set (config_xml_to_dict_tasks gf xml)
       \<and> config_string_to_dict gf (config_dict_to_string gf tp) (PPN_TASK_LANGUAGE gc) = None
       \<and> config_string_to_dict gf (config_dict_to_string gf tp) (PPN_JOB_LANGUAGE gc) = None"
    then obtain e where "analyze_xml_config gf gc lib container None = Inl e"
      using analyze_xml_config_no_language [where tp = tp and gf = gf and arg = None and container = container and gc = gc and lib = lib]
      by (auto simp: xml_def)
    then show "\<exists>e. analyze gf gc lib container = Inl e"
      using h by (simp add: analyze_def)
  qed
  have T: "\<not> has_config_xml container \<and> has_config_txt container \<Longrightarrow>
      analyze_txt_config gf gc lib container None = Inl e \<Longrightarrow>
      analyze gf gc lib container = Inl e" for e
    by (simp add: analyze_def)
  have F: "analyze gf gc lib container = Inl (KeyError (PPN_JOB_LANGUAGE gc))"
    if "\<not> has_config_xml container \<and> has_config_txt container"
      "config_string_to_dict gf cs (PPN_TASK_LANGUAGE gc) = None"
      "config_string_to_dict gf cs (PPN_JOB_LANGUAGE gc) = None"
      "config_string_to_dict gf cs (PPN_JOB_IS_HIERARCHY_PREFIX gc) = Some isp"
      "config_string_to_dict gf cs (PPN_JOB_OS_HIERARCHY_PREFIX gc) = Some osp"
      "config_string_to_dict gf cs (PPN_JOB_OS_HIERARCHY_TYPE gc) = Some os_kind"
      "config_string_to_dict gf cs (PPN_JOB_IS_TEXT_FILE_RELATIVE_PATH gc) = Some trel"
      "config_string_to_dict gf cs (PPN_JOB_IS_TEXT_FILE_NAME_REGEX gc) = Some trs"
      "re_compile lib trs = Inr trx"
      "config_string_to_dict gf cs (PPN_JOB_IS_AUDIO_FILE_RELATIVE_PATH gc) = Some arel"
      "config_string_to_dict gf cs (PPN_JOB_IS_AUDIO_FILE_NAME_REGEX gc) = Some ars"
      "re_compile lib ars = Inr arx"
      "config_string_to_dict gf cs (PPN_JOB_IS_HIERARCHY_TYPE gc) = Some HierarchyType_FLAT"
      "match_files_flat_hierarchy gf
            (find_files gf (container_entries container) (norm_join gf dir isp) (Some trel) trx)
            (find_files gf (container_entries container) (norm_join gf dir isp) (Some arel) arx)
           \<noteq> []"
  proof -
    have "analyze_txt_config gf gc lib container None = Inl (KeyError (PPN_JOB_LANGUAGE gc))"
      by (rule analyze_txt_config_flat_no_language [OF that(2-14) [unfolded cs_def dir_def]])
    then show ?thesis using that(1) by (rule T [rotated])
  qed
  have G: "analyze gf gc lib container = Inl (KeyError (PPN_JOB_LANGUAGE gc))"
    if "\<not> has_config_xml container \<and> has_config_txt container"
      "config_string_to_dict gf cs (PPN_TASK_LANGUAGE gc) = None"
      "config_string_to_dict gf cs (PPN_JOB_LANGUAGE gc) = None"
      "config_string_to_dict gf cs (PPN_JOB_IS_HIERARCHY_PREFIX gc) = Some isp"
      "config_string_to_dict gf cs (PPN_JOB_OS_HIERARCHY_PREFIX gc) = Some osp"
      "config_string_to_dict gf cs (PPN_JOB_OS_HIERARCHY_TYPE gc) = Some os_kind"
      "config_string_to_dict gf cs (PPN_JOB_IS_TEXT_FILE_RELATIVE_PATH gc) = Some trel"
      "config_string_to_dict gf cs (PPN_JOB_IS_TEXT_FILE_NAME_REGEX gc) = Some trs"
      "re_compile lib trs = Inr trx"
      "config_string_to_dict gf cs (PPN_JOB_IS_AUDIO_FILE_RELATIVE_PATH gc) = Some arel"
      "config_string_to_dict gf cs (PPN_JOB_IS_AUDIO_FILE_NAME_REGEX gc) = Some ars"
      "re_compile lib ars = Inr arx"
      "config_string_to_dict gf cs (PPN_JOB_IS_HIERARCHY_TYPE gc) = Some HierarchyType_PAGED"
      "config_string_to_dict gf cs (PPN_JOB_IS_TASK_DIRECTORY_NAME_REGEX gc) = Some drs"
      "match_directories lib (container_entries container) (norm_join gf dir isp) drs = Inr dirs"
      "d \<in> set dirs"
      "length (find_files gf (container_entries container)
                      (norm_join gf (norm_join gf dir isp) d) (Some trel) trx) = 1"
      "length (find_files gf (container_entries container)
                      (norm_join gf (norm_join gf dir isp) d) (Some arel) arx) = 1"
  proof -
    have "analyze_txt_config gf gc lib container None = Inl (KeyError (PPN_JOB_LANGUAGE gc))"
      by (rule analyze_txt_config_paged_no_language [OF that(2-18) [unfolded cs_def dir_def]])
    then show ?thesis using that(1) by (rule T [rotated])
  qed
  from A B C X F G show ?thesis by blast
qed

lemma xml_task_line:
  "tl (split_sep CHR 0x0A (read_entry xml_no_language_container
                              (entry_config_xml xml_no_language_container)))
   = [''task_custom_id=t1|is_text_file=text/a.txt|is_audio_file=audio/a.mp3|os_task_file_name=$PREFIX.smil'']"
  by code_simp

lemma xml_task_member:
  "string_to_dict ''task_custom_id=t1|is_text_file=text/a.txt|is_audio_file=audio/a.mp3|os_task_file_name=$PREFIX.smil''
   \<in> set (config_xml_to_dict_tasks aeneas_gf
             (read_entry xml_no_language_container (entry_config_xml xml_no_language_container)))"
  by (simp add: aeneas_gf_def lines_tasks_def xml_task_line)

lemma xml_task_no_language:
  "config_string_to_dict aeneas_gf (config_dict_to_string aeneas_gf
     (string_to_dict ''task_custom_id=t1|is_text_file=text/a.txt|is_audio_file=audio/a.mp3|os_task_file_name=$PREFIX.smil''))
     (PPN_TASK_LANGUAGE aeneas_gc) = None"
  "config_string_to_dict aeneas_gf (config_dict_to_string aeneas_gf
     (string_to_dict ''task_custom_id=t1|is_text_file=text/a.txt|is_audio_file=audio/a.mp3|os_task_file_name=$PREFIX.smil''))
     (PPN_JOB_LANGUAGE aeneas_gc) = None"
  by code_simp+

lemma flat_parameters:
  "config_string_to_dict aeneas_gf (config_txt_to_string aeneas_gf
     (read_entry no_language_container (entry_config_txt no_language_container)))
     (PPN_TASK_LANGUAGE aeneas_gc) = None"
  "config_string_to_dict aeneas_gf (config_txt_to_string aeneas_gf
     (read_entry no_language_container (entry_config_txt no_language_container)))
     (PPN_JOB_LANGUAGE aeneas_gc) = None"
  "config_string_to_dict aeneas_gf (config_txt_to_string aeneas_gf
     (read_entry no_language_container (entry_config_txt no_language_container)))
     (PPN_JOB_IS_HIERARCHY_PREFIX aeneas_gc) = Some ''.''"
  "config_string_to_dict aeneas_gf (config_txt_to_string aeneas_gf
     (read_entry no_language_container (entry_config_txt no_language_container)))
     (PPN_JOB_OS_HIERARCHY_PREFIX aeneas_gc) = Some ''sync''"
  "config_string_to_dict aeneas_gf (config_txt_to_string aeneas_gf
     (read_entry no_language_container (entry_config_txt no_language_container)))
     (PPN_JOB_OS_HIERARCHY_TYPE aeneas_gc) = Some ''flat''"
  "config_string_to_dict aeneas_gf (config_txt_to_string aeneas_gf
     (read_entry no_language_container (entry_config_txt no_language_container)))
     (PPN_JOB_IS_TEXT_FILE_RELATIVE_PATH aeneas_gc) = Some ''text''"
  "config_string_to_dict aeneas_gf (config_txt_to_string aeneas_gf
     (read_entry no_language_container (entry_config_txt no_language_container)))
     (PPN_JOB_IS_TEXT_FILE_NAME_REGEX aeneas_gc) = Some ''[.]txt''"
  "re_compile aeneas_lib ''[.]txt'' = Inr compiled_txt"
  "config_string_to_dict aeneas_gf (config_txt_to_string aeneas_gf
     (read_entry no_language_container (entry_config_txt no_language_container)))
     (PPN_JOB_IS_AUDIO_FILE_RELATIVE_PATH aeneas_gc) = Some ''audio''"
  "config_string_to_dict aeneas_gf (config_txt_to_string aeneas_gf
     (read_entry no_language_container (entry_config_txt no_language_container)))
     (PPN_JOB_IS_AUDIO_FILE_NAME_REGEX aeneas_gc) = Some ''[.]mp3''"
  "re_compile aeneas_lib ''[.]mp3'' = Inr compiled_mp3"
  "config_string_to_dict aeneas_gf (config_txt_to_string aeneas_gf
     (read_entry no_language_container (entry_config_txt no_language_container)))
     (PPN_JOB_IS_HIERARCHY_TYPE aeneas_gc) = Some HierarchyType_FLAT"
  "match_files_flat_hierarchy aeneas_gf
     (find_files aeneas_gf (container_entries no_language_container)
        (norm_join aeneas_gf (dirname (entry_config_txt no_language_container)) ''.'')
        (Some ''text'') compiled_txt)
     (find_files aeneas_gf (container_entries no_language_container)
        (norm_join aeneas_gf (dirname (entry_config_txt no_language_container)) ''.'')
        (Some ''audio'') compiled_mp3)
   \<noteq> []"
  by code_simp+

lemma paged_parameters:
  "config_string_to_dict aeneas_gf (config_txt_to_string aeneas_gf
     (read_entry paged_no_language_container (entry_config_txt paged_no_language_container)))
     (PPN_TASK_LANGUAGE aeneas_gc) = None"
  "config_string_to_dict aeneas_gf (config_txt_to_string aeneas_gf
     (read_entry paged_no_language_container (entry_config_txt paged_no_language_container)))
     (PPN_JOB_LANGUAGE aeneas_gc) = None"
  "config_string_to_dict aeneas_gf (config_txt_to_string aeneas_gf
     (read_entry paged_no_language_container (entry_config_txt paged_no_language_container)))
     (PPN_JOB_IS_HIERARCHY_PREFIX aeneas_gc) = Some ''r''"
  "config_string_to_dict aeneas_gf (config_txt_to_string aeneas_gf
     (read_entry paged_no_language_container (entry_config_txt paged_no_language_container)))
     (PPN_JOB_OS_HIERARCHY_PREFIX aeneas_gc) = Some ''out''"
  "config_string_to_dict aeneas_gf (config_txt_to_string aeneas_gf
     (read_entry paged_no_language_container (entry_config_txt paged_no_language_container)))
     (PPN_JOB_OS_HIERARCHY_TYPE aeneas_gc) = Some ''paged''"
  "config_string_to_dict aeneas_gf (config_txt_to_string aeneas_gf
     (read_entry paged_no_language_container (entry_config_txt paged_no_language_container)))
     (PPN_JOB_IS_TEXT_FILE_RELATIVE_PATH aeneas_gc) = Some ''.''"
  "config_string_to_dict aeneas_gf (config_txt_to_string aeneas_gf
     (read_entry paged_no_language_container (entry_config_txt paged_no_language_container)))
     (PPN_JOB_IS_TEXT_FILE_NAME_REGEX aeneas_gc) = Some ''[.]txt''"
  "config_string_to_dict aeneas_gf (config_txt_to_string aeneas_gf
     (read_entry paged_no_language_container (entry_config_txt paged_no_language_container)))
     (PPN_JOB_IS_AUDIO_FILE_RELATIVE_PATH aeneas_gc) = Some ''.''"
  "config_string_to_dict aeneas_gf (config_txt_to_string aeneas_gf
     (read_entry paged_no_language_container (entry_config_txt paged_no_language_container)))
     (PPN_JOB_IS_AUDIO_FILE_NAME_REGEX aeneas_gc) = Some ''[.]mp3''"
  "config_string_to_dict aeneas_gf (config_txt_to_string aeneas_gf
     (read_entry paged_no_language_container (entry_config_txt paged_no_language_container)))
     (PPN_JOB_IS_HIERARCHY_TYPE aeneas_gc) = Some HierarchyType_PAGED"
  "config_string_to_dict aeneas_gf (config_txt_to_string aeneas_gf
     (read_entry paged_no_language_container (entry_config_txt paged_no_language_container)))
     (PPN_JOB_IS_TASK_DIRECTORY_NAME_REGEX aeneas_gc) = Some ''[0-9]+''"
  "match_directories aeneas_lib (container_entries paged_no_language_container)
     (norm_join aeneas_gf (dirname (entry_config_txt paged_no_language_container)) ''r'') ''[0-9]+''
   = Inr [''1'', ''2'']"
  "length (find_files aeneas_gf (container_entries paged_no_language_container)
     (norm_join aeneas_gf
        (norm_join aeneas_gf (dirname (entry_config_txt paged_no_language_container)) ''r'') ''1'')
     (Some ''.'') compiled_txt) = 1"
  "length (find_files aeneas_gf (container_entries paged_no_language_container)
     (norm_join aeneas_gf
        (norm_join aeneas_gf (dirname (entry_config_txt paged_no_language_container)) ''r'') ''1'')
     (Some ''.'') compiled_mp3) = 1"
  by code_simp+

lemma container_flags:
  "has_config_xml xml_no_language_container"
  "\<not> has_config_xml no_language_container" "has_config_txt no_language_container"
  "\<not> has_config_xml paged_no_language_container" "has_config_txt paged_no_language_container"
  by (simp_all add: xml_no_language_container_def no_language_container_def
      paged_no_language_container_def)

theorem create_task_language_witness:
  "config_string_to_dict aeneas_gf ''task_language=it|job_language=en'' (PPN_TASK_LANGUAGE aeneas_gc) = Some ''it''
   \<and> (\<exists>t. create_task aeneas_gf aeneas_gc aeneas_lib (''1'', ''1/p.txt'', ''1/p.mp3'')
              ''task_language=it|job_language=en'' ''out'' ''flat'' = Inr t
          \<and> language (configuration t) = ''it'')
   \<and> config_string_to_dict aeneas_gf ''job_language=en'' (PPN_TASK_LANGUAGE aeneas_gc) = None
   \<and> config_string_to_dict aeneas_gf ''job_language=en'' (PPN_JOB_LANGUAGE aeneas_gc) = Some ''en''
   \<and> (\<exists>t. create_task aeneas_gf aeneas_gc aeneas_lib (''1'', ''1/p.txt'', ''1/p.mp3'')
              ''job_language=en'' ''out'' ''flat'' = Inr t
          \<and> language (configuration t) = ''en'')
   \<and> config_string_to_dict aeneas_gf ''os_task_file_name=x'' (PPN_TASK_LANGUAGE aeneas_gc) = None
   \<and> config_string_to_dict aeneas_gf ''os_task_file_name=x'' (PPN_JOB_LANGUAGE aeneas_gc) = None
   \<and> create_task aeneas_gf aeneas_gc aeneas_lib (''1'', ''1/p.txt'', ''1/p.mp3'')
        ''os_task_file_name=x'' ''out'' ''flat'' = Inl (KeyError ''job_language'')
   \<and> fold_e (\<lambda>job task_info.
               bind_e (create_task aeneas_gf aeneas_gc aeneas_lib task_info
                         ''os_task_file_name=x'' ''out'' ''flat'')
                 (\<lambda>task. Inr (add_task job task)))
         (new_Job ''os_task_file_name=x'') [(''1'', ''1/p.txt'', ''1/p.mp3'')]
       = Inl (KeyError ''job_language'')
   \<and> has_config_xml xml_no_language_container
   \<and> (\<exists>e. analyze aeneas_gf aeneas_gc aeneas_lib xml_no_language_container = Inl e)
   \<and> \<not> has_config_xml no_language_container \<and> has_config_txt no_language_container
   \<and> analyze aeneas_gf aeneas_gc aeneas_lib no_language_container = Inl (KeyError ''job_language'')
   \<and> \<not> has_config_xml paged_no_language_container \<and> has_config_txt paged_no_language_container
   \<and> analyze aeneas_gf aeneas_gc aeneas_lib paged_no_language_container
       = Inl (KeyError ''job_language'')"
proof -
  have a: "config_string_to_dict aeneas_gf ''task_language=it|job_language=en'' (PPN_TASK_LANGUAGE aeneas_gc) = Some ''it''"
    by code_simp
  have b: "config_string_to_dict aeneas_gf ''job_language=en'' (PPN_TASK_LANGUAGE aeneas_gc) = None"
    "config_string_to_dict aeneas_gf ''job_language=en'' (PPN_JOB_LANGUAGE aeneas_gc) = Some ''en''"
    by code_simp+
  have c: "config_string_to_dict aeneas_gf ''os_task_file_name=x'' (PPN_TASK_LANGUAGE aeneas_gc) = None"
    "config_string_to_dict aeneas_gf ''os_task_file_name=x'' (PPN_JOB_LANGUAGE aeneas_gc) = None"
    by code_simp+
  have k: "PPN_JOB_LANGUAGE aeneas_gc = ''job_language''"
    by (simp add: aeneas_gc_def)
  have n: "[(''1'', ''1/p.txt'', ''1/p.mp3'')] \<noteq> []" by simp
  note T = create_task_language
  note A = T [where gf = aeneas_gf and config_string = "''task_language=it|job_language=en''"
      and gc = aeneas_gc and l = "''it''" and lib = aeneas_lib
      and info = "(''1'', ''1/p.txt'', ''1/p.mp3'')" and root = "''out''" and kind = "''flat''",
      THEN conjunct1]
  note B = T [where gf = aeneas_gf
      and config_string = "''job_language=en''"
      and gc = aeneas_gc and l = "''en''" and lib = aeneas_lib
      and info = "(''1'', ''1/p.txt'', ''1/p.mp3'')" and root = "''out''" and kind = "''flat''",
      THEN conjunct2, THEN conjunct1]
  note C = T [where gf = aeneas_gf
      and config_string = "''os_task_file_name=x''"
      and gc = aeneas_gc and lib = aeneas_lib
      and info = "(''1'', ''1/p.txt'', ''1/p.mp3'')" and root = "''out''" and kind = "''flat''"
      and units = "[(''1'', ''1/p.txt'', ''1/p.mp3'')]" and job = "new_Job ''os_task_file_name=x''",
      THEN conjunct2, THEN conjunct2, THEN conjunct1]
  note X = T [where gf = aeneas_gf and gc = aeneas_gc and lib = aeneas_lib
      and container = xml_no_language_container
      and tp = "string_to_dict ''task_custom_id=t1|is_text_file=text/a.txt|is_audio_file=audio/a.mp3|os_task_file_name=$PREFIX.smil''",
      THEN conjunct2, THEN conjunct2, THEN conjunct2, THEN conjunct1]
  note F = T [where gf = aeneas_gf and gc = aeneas_gc and lib = aeneas_lib
      and container = no_language_container
      and isp = "''.''" and osp = "''sync''" and os_kind = "''flat''"
      and trel = "''text''" and trs = "''[.]txt''" and trx = compiled_txt
      and arel = "''audio''" and ars = "''[.]mp3''" and arx = compiled_mp3,
      THEN conjunct2, THEN conjunct2, THEN conjunct2, THEN conjunct2]
  note G = T [where gf = aeneas_gf and gc = aeneas_gc and lib = aeneas_lib
      and container = paged_no_language_container
      and isp = "''r''" and osp = "''out''" and os_kind = "''paged''"
      and trel = "''.''" and trs = "''[.]txt''" and trx = compiled_txt
      and arel = "''.''" and ars = "''[.]mp3''" and arx = compiled_mp3
      and drs = "''[0-9]+''" and dirs = "[''1'', ''2'']" and d = "''1''",
      THEN conjunct2, THEN conjunct2, THEN conjunct2, THEN conjunct2]
  from A a have 1: "\<exists>t. create_task aeneas_gf aeneas_gc aeneas_lib (''1'', ''1/p.txt'', ''1/p.mp3'')
              ''task_language=it|job_language=en'' ''out'' ''flat'' = Inr t
          \<and> language (configuration t) = ''it''" by blast
  from B b have 2: "\<exists>t. create_task aeneas_gf aeneas_gc aeneas_lib (''1'', ''1/p.txt'', ''1/p.mp3'')
              ''job_language=en'' ''out'' ''flat'' = Inr t
          \<and> language (configuration t) = ''en''" by blast
  from C c n k have 3: "create_task aeneas_gf aeneas_gc aeneas_lib (''1'', ''1/p.txt'', ''1/p.mp3'')
        ''os_task_file_name=x'' ''out'' ''flat'' = Inl (KeyError ''job_language'')"
    "fold_e (\<lambda>job task_info.
               bind_e (create_task aeneas_gf aeneas_gc aeneas_lib task_info
                         ''os_task_file_name=x'' ''out'' ''flat'')
                 (\<lambda>task. Inr (add_task job task)))
         (new_Job ''os_task_file_name=x'') [(''1'', ''1/p.txt'', ''1/p.mp3'')]
       = Inl (KeyError ''job_language'')" by simp_all
  from X xml_task_member xml_task_no_language container_flags(1)
  have 4: "\<exists>e. analyze aeneas_gf aeneas_gc aeneas_lib xml_no_language_container = Inl e"
    by blast
  from F flat_parameters container_flags(2,3) k
  have 5: "analyze aeneas_gf aeneas_gc aeneas_lib no_language_container = Inl (KeyError ''job_language'')"
    by simp
  have m: "''1'' \<in> set [''1'', ''2'']" by simp
  from G paged_parameters flat_parameters(8,11) container_flags(4,5) k m
  have 6: "analyze aeneas_gf aeneas_gc aeneas_lib paged_no_language_container
       = Inl (KeyError ''job_language'')"
    by simp
  show ?thesis using a b c 1 2 3 4 5 6 container_flags by blast
qed

section \<open>The two searches against the words of a pattern\<close>

text \<open>
  \<open>re_match\<close> finds a match that is a prefix of the subject, \<open>re_search\<close> a
  match that is any substring of it.
\<close>

inductive_cases matches_NothingE: "matches Nothing w"
inductive_cases matches_EpsE: "matches Eps w"
inductive_cases matches_SymE: "matches (Sym cs) w"
inductive_cases matches_NSymE: "matches (NSym cs) w"
inductive_cases matches_AltE: "matches (Alt r s) w"
inductive_cases matches_SeqE: "matches (Seq r s) w"

lemma nullable_matches_Nil: "nullable r \<Longrightarrow> matches r []"
proof (induction r)
  case (Seq r s)
  then have "matches (Seq r s) ([] @ [])" by (intro m_seq) simp_all
  then show ?case by simp
qed (auto intro: matches.intros)

lemma matches_Nil_nullable: "matches r w \<Longrightarrow> w = [] \<Longrightarrow> nullable r"
  by (induction rule: matches.induct) auto

lemma nullable_iff: "nullable r \<longleftrightarrow> matches r []"
  using nullable_matches_Nil matches_Nil_nullable by blast

lemma deriv_sound: "matches (deriv c r) w \<Longrightarrow> matches r (c # w)"
proof (induction r arbitrary: w)
  case Nothing
  then show ?case by (auto elim: matches_NothingE)
next
  case Eps
  then show ?case by (auto elim: matches_NothingE)
next
  case (Sym cs)
  then show ?case
    by (auto split: if_splits elim: matches_NothingE matches_EpsE intro: m_sym)
next
  case (NSym cs)
  then show ?case
    by (auto split: if_splits elim: matches_NothingE matches_EpsE intro: m_nsym)
next
  case (Alt r s)
  then show ?case by (auto elim!: matches_AltE intro: m_altl m_altr)
next
  case (Seq r s)
  have left: "matches (Seq r s) (c # w)" if "matches (Seq (deriv c r) s) w"
  proof -
    from that obtain u v where "w = u @ v" "matches (deriv c r) u" "matches s v"
      by (auto elim: matches_SeqE)
    then have "matches (Seq r s) ((c # u) @ v)"
      using Seq.IH(1) by (intro m_seq) auto
    then show ?thesis using \<open>w = u @ v\<close> by simp
  qed
  have right: "matches (Seq r s) (c # w)" if "nullable r" "matches (deriv c s) w"
  proof -
    have "matches (Seq r s) ([] @ c # w)"
      using that Seq.IH(2) nullable_matches_Nil by (intro m_seq) auto
    then show ?thesis by simp
  qed
  show ?case
    using Seq.prems left right by (auto split: if_splits elim!: matches_AltE)
next
  case (Star r)
  then obtain u v where "w = u @ v" "matches (deriv c r) u" "matches (Star r) v"
    by (auto elim: matches_SeqE)
  then have "matches (Star r) ((c # u) @ v)"
    using Star.IH by (intro m_star_step) auto
  then show ?case using \<open>w = u @ v\<close> by simp
qed

lemma deriv_complete: "matches r x \<Longrightarrow> x = c # w \<Longrightarrow> matches (deriv c r) w"
proof (induction arbitrary: w rule: matches.induct)
  case (m_seq r u s v)
  show ?case
  proof (cases u)
    case Nil
    then have "nullable r" using m_seq.hyps(1) matches_Nil_nullable by blast
    moreover have "matches (deriv c s) w" using m_seq Nil by simp
    ultimately show ?thesis by (auto intro: m_altr)
  next
    case (Cons a u')
    then have "a = c" "w = u' @ v" using m_seq.prems by simp_all
    then have "matches (Seq (deriv c r) s) w"
      using m_seq.IH(1) [of u'] m_seq.hyps(2) Cons by (auto intro: matches.m_seq)
    then show ?thesis by (auto intro: m_altl)
  qed
next
  case (m_star_step r u v)
  show ?case
  proof (cases u)
    case Nil
    then show ?thesis using m_star_step by simp
  next
    case (Cons a u')
    then have "a = c" "w = u' @ v" using m_star_step.prems by simp_all
    then show ?thesis
      using m_star_step.IH(1) [of u'] m_star_step.hyps(2) Cons by (auto intro: m_seq)
  qed
qed (auto intro: matches.intros)

lemma deriv_iff: "matches (deriv c r) w \<longleftrightarrow> matches r (c # w)"
  using deriv_sound deriv_complete by blast

lemma re_match_iff: "re_match r s \<longleftrightarrow> (\<exists>u v. s = u @ v \<and> matches r u)"
proof (induction s arbitrary: r)
  case Nil
  then show ?case by (simp add: nullable_iff)
next
  case (Cons c cs)
  show ?case
  proof
    assume "re_match r (c # cs)"
    then consider "nullable r" | "re_match (deriv c r) cs" by auto
    then show "\<exists>u v. c # cs = u @ v \<and> matches r u"
    proof cases
      case 1
      then have "c # cs = [] @ (c # cs) \<and> matches r []" by (simp add: nullable_iff)
      then show ?thesis by blast
    next
      case 2
      then obtain u v where "cs = u @ v" "matches (deriv c r) u" using Cons.IH by blast
      then have "c # cs = (c # u) @ v \<and> matches r (c # u)" by (simp add: deriv_iff)
      then show ?thesis by blast
    qed
  next
    assume "\<exists>u v. c # cs = u @ v \<and> matches r u"
    then obtain u v where uv: "c # cs = u @ v" "matches r u" by blast
    show "re_match r (c # cs)"
    proof (cases u)
      case Nil
      then have "nullable r" using uv(2) by (simp add: nullable_iff)
      then show ?thesis by simp
    next
      case (Cons a u')
      then have "cs = u' @ v" "matches (deriv c r) u'" using uv by (auto simp: deriv_iff)
      then show ?thesis using Cons.IH by auto
    qed
  qed
qed

lemma re_search_iff: "re_search r s \<longleftrightarrow> (\<exists>p u v. s = p @ u @ v \<and> matches r u)"
proof (induction s)
  case Nil
  then show ?case by (simp add: nullable_iff)
next
  case (Cons c cs)
  show ?case
  proof
    assume "re_search r (c # cs)"
    then consider "re_match r (c # cs)" | "re_search r cs" by auto
    then show "\<exists>p u v. c # cs = p @ u @ v \<and> matches r u"
    proof cases
      case 1
      then obtain u v where "c # cs = [] @ u @ v \<and> matches r u"
        using re_match_iff [of r "c # cs"] by auto
      then show ?thesis by blast
    next
      case 2
      then obtain p u v where "cs = p @ u @ v" "matches r u" using Cons.IH by blast
      then have "c # cs = (c # p) @ u @ v \<and> matches r u" by simp
      then show ?thesis by blast
    qed
  next
    assume "\<exists>p u v. c # cs = p @ u @ v \<and> matches r u"
    then obtain p u v where puv: "c # cs = p @ u @ v" "matches r u" by blast
    show "re_search r (c # cs)"
    proof (cases p)
      case Nil
      then have "re_match r (c # cs)" using puv re_match_iff [of r "c # cs"] by auto
      then show ?thesis by simp
    next
      case (Cons a p')
      then have "cs = p' @ u @ v" using puv by simp
      then have "re_search r cs" using Cons.IH puv(2) by blast
      then show ?thesis by simp
    qed
  qed
qed

section \<open>Entry filter: what qualifies\<close>

text \<open>
  An entry is returned when the target is a string prefix of it and the pattern
  matches a substring of what follows position \<open>len(target) + 1\<close>; the character
  at position \<open>len(target)\<close> is dropped without being looked at.
\<close>

lemma find_files_iff:
  "entry \<in> set (find_files gf entries root relative_path file_name_regex) \<longleftrightarrow>
     entry \<in> set entries
     \<and> startswith entry (case relative_path of None \<Rightarrow> root | Some rp \<Rightarrow> norm_join gf root rp)
     \<and> (\<exists>p u v. drop (length (case relative_path of None \<Rightarrow> root
                                  | Some rp \<Rightarrow> norm_join gf root rp) + 1) entry = p @ u @ v
                 \<and> matches file_name_regex u)"
  by (simp add: find_files_def Let_def re_search_iff)

lemma find_files_sorted: "sorted (find_files gf entries root relative_path file_name_regex)"
  by (simp add: find_files_def Let_def)

text \<open>
  C1. The docstring asks for the entries that are in \<open>root/relative_path\<close>. The
  filter returns an entry of the neighbour directory \<open>text2\<close> for the target
  \<open>text\<close>: the target is a prefix of the entry, and the separator is not checked.
\<close>

theorem find_files_neighbour_directory:
  "find_files aeneas_gf [''OEBPS/text/a.txt'', ''OEBPS/text2/b.txt''] ''OEBPS'' (Some ''text'')
     txt_pattern = [''OEBPS/text/a.txt'', ''OEBPS/text2/b.txt'']
   \<and> find_files aeneas_gf [''text2/b.txt''] ''text'' None txt_pattern = [''text2/b.txt'']
   \<and> \<not> startswith ''text2/b.txt'' (''text'' @ [os_sep])"
  by code_simp

section \<open>Paged directory matcher: what is matched\<close>

lemma directory_of_iff:
  "d \<in> set (directory_of regex root entry) \<longleftrightarrow>
     startswith entry root
     \<and> (\<exists>rest. split_sep os_sep (drop (length root + 1) entry) = d # rest \<and> rest \<noteq> [])
     \<and> re_match regex d"
proof (cases "split_sep os_sep (drop (length root + 1) entry)")
  case Nil
  then show ?thesis by (simp add: directory_of_def)
next
  case (Cons a as)
  then show ?thesis by (cases as) (auto simp add: directory_of_def)
qed

lemma match_directories_iff:
  assumes "re_compile lib regex_string = Inr regex"
  shows "\<exists>ds. match_directories lib entries root regex_string = Inr ds
           \<and> sorted ds \<and> distinct ds
           \<and> set ds = {d. \<exists>entry \<in> set entries.
                 startswith entry root
                 \<and> (\<exists>rest. split_sep os_sep (drop (length root + 1) entry) = d # rest \<and> rest \<noteq> [])
                 \<and> (\<exists>u v. d = u @ v \<and> matches regex u)}"
proof -
  let ?ds = "sort (remdups (concat (map (directory_of regex root) entries)))"
  have "match_directories lib entries root regex_string = Inr ?ds"
    using assms by (simp add: match_directories_def)
  moreover have "sorted ?ds" "distinct ?ds" by simp_all
  moreover have "set ?ds = {d. \<exists>entry \<in> set entries.
                 startswith entry root
                 \<and> (\<exists>rest. split_sep os_sep (drop (length root + 1) entry) = d # rest \<and> rest \<noteq> [])
                 \<and> (\<exists>u v. d = u @ v \<and> matches regex u)}"
  proof -
    have "set ?ds = {d. \<exists>entry \<in> set entries. d \<in> set (directory_of regex root entry)}"
      by auto
    then show ?thesis by (simp add: directory_of_iff re_match_iff)
  qed
  ultimately show ?thesis by blast
qed

text \<open>
  C3. The comments ask to look only inside the root directory and to remove the
  common prefix \<open>root/\<close>. For the root \<open>foo\<close> the entry \<open>foo21/a\<close> of a
  neighbour directory passes the prefix test, loses its first four characters and
  contributes the directory name \<open>1\<close>, although no entry starts with \<open>foo/\<close>.
\<close>

theorem match_directories_neighbour_directory:
  "match_directories aeneas_lib [''foo21/a''] ''foo'' ''[0-9]+'' = Inr [''1'']
   \<and> \<not> startswith ''foo21/a'' (''foo'' @ [os_sep])"
  by code_simp

end
